theory Spec2Isabelle
  imports Main "HOL-Library.AList"
begin

section \<open>JavaScript values and strings\<close>

text \<open>
  The values \<^verbatim>\<open>JSON.parse\<close> can produce. Numbers are the integer-valued ones (request
  ids and error codes are integers); an object is the list of its own properties.
  \<^verbatim>\<open>undefined\<close> is \<open>None\<close> of \<open>json option\<close>.
\<close>

datatype json =
    JNull
  | JBool bool
  | JNum int
  | JStr string
  | JArr "json list"
  | JObj "(string \<times> json) list"

text \<open>\<^verbatim>\<open>key in obj\<close> and \<^verbatim>\<open>obj[key]\<close> for the property names the client reads.\<close>

fun get_prop :: "json \<Rightarrow> string \<Rightarrow> json option" where
  "get_prop (JObj kvs) k = map_of kvs k"
| "get_prop _ k = None"

text \<open>JavaScript truthiness of a value that may be \<^verbatim>\<open>undefined\<close>.\<close>

fun truthy :: "json option \<Rightarrow> bool" where
  "truthy None = False"
| "truthy (Some JNull) = False"
| "truthy (Some (JBool b)) = b"
| "truthy (Some (JNum n)) = (n \<noteq> 0)"
| "truthy (Some (JStr s)) = (s \<noteq> [])"
| "truthy (Some (JArr xs)) = True"
| "truthy (Some (JObj kvs)) = True"

fun startsWith :: "string \<Rightarrow> string \<Rightarrow> bool" where
  "startsWith s [] = True"
| "startsWith [] (p # ps) = False"
| "startsWith (c # cs) (p # ps) = (c = p \<and> startsWith cs ps)"

text \<open>\<^verbatim>\<open>s.includes(pat)\<close>\<close>

fun str_includes :: "string \<Rightarrow> string \<Rightarrow> bool" where
  "str_includes [] pat = (pat = [])"
| "str_includes (c # cs) pat = (startsWith (c # cs) pat \<or> str_includes cs pat)"

text \<open>\<^verbatim>\<open>s.endsWith(pat)\<close>\<close>

definition endsWith :: "string \<Rightarrow> string \<Rightarrow> bool" where
  "endsWith s pat = startsWith (rev s) (rev pat)"

text \<open>\<^verbatim>\<open>s.replace(pat, '')\<close> with a string pattern: the first occurrence only.\<close>

fun remove_first :: "string \<Rightarrow> string \<Rightarrow> string" where
  "remove_first [] pat = []"
| "remove_first (c # cs) pat =
     (if startsWith (c # cs) pat then drop (length pat) (c # cs)
      else c # remove_first cs pat)"

text \<open>\<^verbatim>\<open>s.split(sep)\<close> for separators of one character: \<open>n\<close> separators give \<open>n + 1\<close> pieces.\<close>

fun split_on :: "(char \<Rightarrow> bool) \<Rightarrow> string \<Rightarrow> string list" where
  "split_on P [] = [[]]"
| "split_on P (c # cs) =
     (if P c then [] # split_on P cs
      else (case split_on P cs of
              [] \<Rightarrow> [[c]]
            | w # ws \<Rightarrow> (c # w) # ws))"

text \<open>
  Decimal rendering of a number in a template literal, and \<^verbatim>\<open>parseInt(s, 10)\<close> on digits.
  Numbers are the integers here and both functions are exact. The numbers of the code
  are doubles: it agrees with these functions on the integers of magnitude up to \<open>2^53\<close>,
  which hold the ids (at most 100000 plus the length of a batch) and the error codes of
  the table; above \<open>2^53\<close> \<^verbatim>\<open>parseInt\<close> rounds to the nearest double, and from \<open>10^21\<close> a
  template literal prints the exponent form.
\<close>

definition digit_char :: "nat \<Rightarrow> char" where
  "digit_char d = ''0123456789'' ! d"

function show_nat :: "nat \<Rightarrow> string" where
  "show_nat n = (if n < 10 then [digit_char n] else show_nat (n div 10) @ [digit_char (n mod 10)])"
  by pat_completeness auto
termination
  by (relation "measure (\<lambda>n. n)") auto

definition show_int :: "int \<Rightarrow> string" where
  "show_int i = (if i < 0 then CHR ''-'' # show_nat (nat (- i)) else show_nat (nat i))"

definition is_digit :: "char \<Rightarrow> bool" where
  "is_digit c = (c \<in> set ''0123456789'')"

definition digit_val :: "char \<Rightarrow> nat" where
  "digit_val c = length (takeWhile (\<lambda>d. d \<noteq> c) ''0123456789'')"

definition parse_digits :: "string \<Rightarrow> nat" where
  "parse_digits ds = foldl (\<lambda>acc c. 10 * acc + digit_val c) 0 ds"

definition parseInt :: "string \<Rightarrow> int" where
  "parseInt s =
     (case s of
        [] \<Rightarrow> 0
      | c # cs \<Rightarrow> if c = CHR ''-'' then - int (parse_digits cs) else int (parse_digits (c # cs)))"

section \<open>Error classifier (rpc-error)\<close>

definition JSON_RPC_ERRORS :: "(int \<times> string) list" where
  "JSON_RPC_ERRORS =
    [(-32700, ''Parse error''),
     (-32600, ''Invalid request''),
     (-32601, ''Method not found''),
     (-32602, ''Invalid params''),
     (-32603, ''Internal error''),
     (-1, ''Miscellaneous error''),
     (-3, ''Unexpected type was passed as parameter''),
     (-5, ''Invalid address or key''),
     (-7, ''Ran out of memory during operation''),
     (-8, ''Invalid, missing or duplicate parameter''),
     (-20, ''Database error''),
     (-22, ''Error parsing JSON''),
     (-25, ''An error occured while transaction or block submission''),
     (-26, ''Transaction or block was rejected by network rules''),
     (-27, ''Transaction already in chain''),
     (-28, ''Client still warming up''),
     (-32, ''RPC method is deprecated'')]"

text \<open>
  The class \<^verbatim>\<open>\s\<close> of a regular expression, on the characters a \<open>char\<close> can hold:
  tab, line feed, vertical tab, form feed, carriage return, space, no-break space.
\<close>

definition is_space :: "char \<Rightarrow> bool" where
  "is_space c = (c \<in> set [CHR 0x09, CHR 0x0A, CHR 0x0B, CHR 0x0C, CHR 0x0D, CHR 0x20, CHR 0xA0])"

text \<open>
  The regular expression \<^verbatim>\<open>/"code":\s*(-?\d+)/\<close> tried at the start of a string; the
  result is the captured group. Backtracking finds nothing the greedy reading misses:
  after the longest run of white space the next character is not white space, and a
  minus sign is never a digit.
\<close>

definition code_prefix :: string where
  "code_prefix = [CHR 0x22, CHR ''c'', CHR ''o'', CHR ''d'', CHR ''e'', CHR 0x22, CHR '':'']"

definition match_code_here :: "string \<Rightarrow> string option" where
  "match_code_here s =
     (if startsWith s code_prefix then
        (case dropWhile is_space (drop (length code_prefix) s) of
           [] \<Rightarrow> None
         | c # cs \<Rightarrow>
             if c = CHR ''-'' then
               (if takeWhile is_digit cs = [] then None else Some (c # takeWhile is_digit cs))
             else
               (if takeWhile is_digit (c # cs) = [] then None
                else Some (takeWhile is_digit (c # cs))))
      else None)"

text \<open>\<^verbatim>\<open>str.match(re)\<close>: the leftmost position where the expression matches.\<close>

fun match_code :: "string \<Rightarrow> string option" where
  "match_code [] = match_code_here []"
| "match_code (c # cs) =
     (case match_code_here (c # cs) of
        Some g \<Rightarrow> Some g
      | None \<Rightarrow> match_code cs)"

text \<open>\<^verbatim>\<open>findRPCErrorCode\<close>: \<open>None\<close> is the \<^verbatim>\<open>false\<close> of the source.\<close>

definition findRPCErrorCode :: "string \<Rightarrow> int option" where
  "findRPCErrorCode str =
     (case match_code str of
        None \<Rightarrow> None
      | Some g \<Rightarrow> Some (parseInt g))"

text \<open>
  An \<^verbatim>\<open>RPCError\<close> object. The class declares the field \<^verbatim>\<open>code\<close> and its constructor
  never assigns it: the field stays \<^verbatim>\<open>undefined\<close>. The constructor parameter property
  \<^verbatim>\<open>str\<close> is assigned.
\<close>

record rpc_error =
  message :: string
  str :: string
  code :: "int option"

datatype js_error =
    Error string
  | RPCError rpc_error

text \<open>
  \<^verbatim>\<open>new RPCError(str)\<close> on a string: \<open>Inl\<close> is the exception the constructor throws.
  \<^verbatim>\<open>!code\<close> holds for \<^verbatim>\<open>false\<close> and for the number zero.
\<close>

definition RPCError_new :: "string \<Rightarrow> js_error + rpc_error" where
  "RPCError_new s =
     (case findRPCErrorCode s of
        None \<Rightarrow> Inl (Error ''Could not find RPC error code in string'')
      | Some c \<Rightarrow>
          if c = 0 then Inl (Error ''Could not find RPC error code in string'')
          else
            (let msg = (case map_of JSON_RPC_ERRORS c of
                          None \<Rightarrow> ''Unknown JSON RPC error''
                        | Some m \<Rightarrow> if m = [] then ''Unknown JSON RPC error'' else m)
             in Inr \<lparr>message = msg @ '' (code: '' @ show_int c @ '')'', str = s, code = None\<rparr>))"

section \<open>Session manager (electrum-ws): data\<close>

fun is_object :: "json \<Rightarrow> bool" where
  "is_object (JArr xs) = True"
| "is_object (JObj kvs) = True"
| "is_object _ = False"

fun is_string :: "json option \<Rightarrow> bool" where
  "is_string (Some (JStr s)) = True"
| "is_string _ = False"

fun is_number :: "json option \<Rightarrow> bool" where
  "is_number (Some (JNum n)) = True"
| "is_number _ = False"

definition isRpcResponse :: "json \<Rightarrow> bool" where
  "isRpcResponse obj =
     (is_object obj \<and> get_prop obj ''jsonrpc'' \<noteq> None \<and> is_string (get_prop obj ''jsonrpc'')
      \<and> get_prop obj ''id'' \<noteq> None \<and> is_number (get_prop obj ''id''))"

definition isRpcRequest :: "json \<Rightarrow> bool" where
  "isRpcRequest obj =
     (is_object obj \<and> get_prop obj ''jsonrpc'' \<noteq> None \<and> is_string (get_prop obj ''jsonrpc'')
      \<and> get_prop obj ''method'' \<noteq> None \<and> is_string (get_prop obj ''method''))"

record ElectrumWSOptions =
  token :: "string option"
  reconnect :: bool
  verbose :: bool

text \<open>\<^verbatim>\<open>Partial<ElectrumWSOptions>\<close>: the properties the caller's object has.\<close>

record PartialOptions =
  opt_token :: "string option"
  opt_reconnect :: "bool option"
  opt_verbose :: "bool option"

datatype ElectrumWSEvent = OPEN | CLOSE | CONNECTED | DISCONNECTED | RECONNECTING | ERROR | MESSAGE

text \<open>
  An entry of the pending-request table. \<open>promise\<close> stands for the pair
  \<^verbatim>\<open>resolve\<close>/\<^verbatim>\<open>reject\<close> of the promise made by \<^verbatim>\<open>createRequestPromise\<close>, \<open>timeout\<close> is
  the handle \<^verbatim>\<open>setTimeout\<close> returned.
\<close>

record request =
  promise :: nat
  "method" :: string
  timeout :: nat

definition RECONNECT_TIMEOUT :: nat where "RECONNECT_TIMEOUT = 1000"
definition CONNECTED_TIMEOUT :: nat where "CONNECTED_TIMEOUT = 500"
definition REQUEST_TIMEOUT :: nat where "REQUEST_TIMEOUT = 1000 * 10"
definition CLOSE_CODE :: nat where "CLOSE_CODE = 1000"

text \<open>
  What a scheduled timer does when it fires: the three callbacks the client passes to
  \<^verbatim>\<open>setTimeout\<close> (in \<^verbatim>\<open>createRequestPromise\<close>, \<^verbatim>\<open>onOpen\<close> and \<^verbatim>\<open>onClose\<close>), with the
  variables each closure captured and its delay.
\<close>

datatype timer =
    RequestTimer int string nat nat
  | ConnectedTimer nat
  | ReconnectTimer nat

datatype readyState = CONNECTING | OPENED | CLOSING | CLOSED

record websocket =
  url :: string
  state :: readyState

text \<open>
  A call suspended at \<^verbatim>\<open>await new Promise((resolve) => this.once(CONNECTED, ...))\<close>:
  \<^verbatim>\<open>request\<close> has chosen its id and built its payload before it waits, \<^verbatim>\<open>batchRequest\<close>
  waits first.
\<close>

datatype waiter =
    AwaitRequest int string json
  | AwaitBatch "(string \<times> json list) list"

text \<open>
  A call of \<^verbatim>\<open>subscribe\<close> suspended at \<^verbatim>\<open>await this.request(...)\<close>: the callback and the
  parameters it will be called with, and whether the call is the one \<^verbatim>\<open>onOpen\<close> makes
  (which carries the \<^verbatim>\<open>catch\<close> handler that closes the socket).
\<close>

record subscriber =
  callback :: nat
  args :: "json list"
  resubscription :: bool

text \<open>
  The fields of an \<^verbatim>\<open>ElectrumWS\<close> object, followed by the part of the run-time state
  the object's closures live in: the scheduled timers, the listeners registered with
  \<^verbatim>\<open>once\<close> on \<^verbatim>\<open>CONNECTED\<close> and on \<^verbatim>\<open>CLOSE\<close>, and the suspended \<^verbatim>\<open>subscribe\<close> calls.
  \<open>options\<close> is a reference into the object store; the two maps are association lists
  in insertion order, as a JavaScript \<^verbatim>\<open>Map\<close> iterates; a subscription callback is a
  function identity.
\<close>

record session =
  options :: nat
  endpoint :: string
  requests :: "(int \<times> request) list"
  subscriptions :: "(string \<times> nat) list"
  connected :: bool
  connectedTimeout :: "nat option"
  reconnectionTimeout :: "nat option"
  incompleteMessage :: string
  ws :: websocket
  timers :: "(nat \<times> timer) list"
  next_timer :: nat
  next_promise :: nat
  once_connected :: "waiter list"
  once_close :: "nat list"
  awaiting :: "(nat \<times> subscriber) list"

text \<open>
  What a handler does to the outside, in order: frames given to \<^verbatim>\<open>ws.send\<close> (the
  payload object that \<^verbatim>\<open>formatRequest\<close> serialises), promises settled, events published
  with \<^verbatim>\<open>fire\<close>, subscription callbacks called, sockets opened and closed.
\<close>

datatype effect =
    Send json
  | Resolve nat json
  | Reject nat js_error
  | Fire ElectrumWSEvent "json option"
  | Callback nat "json list"
  | WsNew string
  | WsClose nat string

section \<open>Session manager: requests\<close>

text \<open>\<^verbatim>\<open>setTimeout\<close> and \<^verbatim>\<open>clearTimeout\<close> (which ignores \<^verbatim>\<open>undefined\<close> and spent handles).\<close>

definition setTimeout :: "session \<Rightarrow> (nat \<Rightarrow> timer) \<Rightarrow> nat \<Rightarrow> session \<times> nat" where
  "setTimeout s f delay =
     (s\<lparr>timers := timers s @ [(next_timer s, f delay)], next_timer := Suc (next_timer s)\<rparr>,
      next_timer s)"

definition clearTimeout :: "session \<Rightarrow> nat option \<Rightarrow> session" where
  "clearTimeout s h =
     (case h of
        None \<Rightarrow> s
      | Some t \<Rightarrow> s\<lparr>timers := AList.delete t (timers s)\<rparr>)"

text \<open>
  The loop \<^verbatim>\<open>do { id = Math.ceil(Math.random() * 1e5) } while (this.requests.has(id))\<close>.
  The outcomes of \<^verbatim>\<open>Math.ceil(Math.random() * 1e5)\<close> are an input, one per iteration;
  \<open>None\<close> says that the loop has not ended when they are used up.
\<close>

fun random_id :: "(int \<times> request) list \<Rightarrow> int list \<Rightarrow> (int \<times> int list) option" where
  "random_id table [] = None"
| "random_id table (d # ds) =
     (if map_of table d \<noteq> None then random_id table ds else Some (d, ds))"

definition make_payload :: "string \<Rightarrow> json list \<Rightarrow> int \<Rightarrow> json" where
  "make_payload m ps i =
     JObj [(''jsonrpc'', JStr ''2.0''), (''method'', JStr m), (''params'', JArr ps), (''id'', JNum i)]"

definition createRequestPromise :: "session \<Rightarrow> int \<Rightarrow> string \<Rightarrow> session \<times> nat" where
  "createRequestPromise s i m =
     (let p = next_promise s;
          s1 = s\<lparr>next_promise := Suc p\<rparr>;
          (s2, t) = setTimeout s1 (RequestTimer i m p) REQUEST_TIMEOUT
      in (s2\<lparr>requests := AList.update i \<lparr>promise = p, method = m, timeout = t\<rparr> (requests s2)\<rparr>, p))"

text \<open>
  \<^verbatim>\<open>request\<close> after its \<^verbatim>\<open>await\<close>: the entry is made and the frame is sent.
\<close>

definition request_send :: "session \<Rightarrow> int \<Rightarrow> string \<Rightarrow> json \<Rightarrow> session \<times> effect list \<times> nat" where
  "request_send s i m payload =
     (let (s1, p) = createRequestPromise s i m
      in (s1, [Send payload], p))"

text \<open>
  \<^verbatim>\<open>request\<close>: the id is chosen against the table as it is at the call; when the
  session is not connected the call is parked until \<^verbatim>\<open>CONNECTED\<close> fires and no promise
  of the table exists yet (\<open>None\<close> in the third component).
\<close>

definition request ::
  "session \<Rightarrow> string \<Rightarrow> json list \<Rightarrow> int list \<Rightarrow> (session \<times> effect list \<times> nat option \<times> int list) option"
where
  "request s m ps draws =
     (case random_id (requests s) draws of
        None \<Rightarrow> None
      | Some (i, rest) \<Rightarrow>
          (let payload = make_payload m ps i in
           if \<not> connected s then
             Some (s\<lparr>once_connected := once_connected s @ [AwaitRequest i m payload]\<rparr>, [], None, rest)
           else
             (let (s1, eff, p) = request_send s i m payload
              in Some (s1, eff, Some p, rest))))"

text \<open>
  \<^verbatim>\<open>batchRequest\<close> after its \<^verbatim>\<open>await\<close>: one id is probed, the payloads take it and its
  successors (\<^verbatim>\<open>id++\<close>), the entries are made in order, then the frames are sent.
\<close>

fun batch_payloads :: "(string \<times> json list) list \<Rightarrow> int \<Rightarrow> json list" where
  "batch_payloads [] i = []"
| "batch_payloads ((m, ps) # rs) i = make_payload m ps i # batch_payloads rs (i + 1)"

fun batch_promises :: "session \<Rightarrow> (string \<times> json list) list \<Rightarrow> int \<Rightarrow> session \<times> nat list" where
  "batch_promises s [] i = (s, [])"
| "batch_promises s ((m, ps) # rs) i =
     (let (s1, p) = createRequestPromise s i m;
          (s2, qs) = batch_promises s1 rs (i + 1)
      in (s2, p # qs))"

definition batch_send ::
  "session \<Rightarrow> (string \<times> json list) list \<Rightarrow> int list \<Rightarrow> (session \<times> effect list \<times> nat list \<times> int list) option"
where
  "batch_send s rs draws =
     (case random_id (requests s) draws of
        None \<Rightarrow> None
      | Some (i, rest) \<Rightarrow>
          (let (s1, promises) = batch_promises s rs i
           in Some (s1, map Send (batch_payloads rs i), promises, rest)))"

definition batchRequest ::
  "session \<Rightarrow> (string \<times> json list) list \<Rightarrow> int list \<Rightarrow> (session \<times> effect list \<times> nat list \<times> int list) option"
where
  "batchRequest s rs draws =
     (if \<not> connected s then
        Some (s\<lparr>once_connected := once_connected s @ [AwaitBatch rs]\<rparr>, [], [], draws)
      else batch_send s rs draws)"

section \<open>Session manager: subscriptions\<close>

text \<open>The key \<^verbatim>\<open>`${method}${typeof params[0] === 'string' ? `-${params[0]}` : ''}`\<close>.\<close>

fun subscriptionKey :: "string \<Rightarrow> json option \<Rightarrow> string" where
  "subscriptionKey m (Some (JStr p)) = m @ ''-'' @ p"
| "subscriptionKey m _ = m"

fun first_arg :: "json list \<Rightarrow> json option" where
  "first_arg [] = None"
| "first_arg (x # xs) = Some x"

text \<open>
  \<^verbatim>\<open>subscribe\<close> up to its \<^verbatim>\<open>await\<close>: the registration, and when connected the request
  \<^verbatim>\<open>method.subscribe\<close>, whose promise the suspended call waits for. \<open>again\<close> tells the
  call \<^verbatim>\<open>onOpen\<close> makes from a caller's.
\<close>

definition subscribe ::
  "session \<Rightarrow> bool \<Rightarrow> string \<Rightarrow> nat \<Rightarrow> json list \<Rightarrow> int list \<Rightarrow> (session \<times> effect list \<times> int list) option"
where
  "subscribe s again m cb ps draws =
     (let s1 = s\<lparr>subscriptions := AList.update (subscriptionKey m (first_arg ps)) cb (subscriptions s)\<rparr> in
      if \<not> connected s1 then Some (s1, [], draws)
      else
        (case request s1 (m @ ''.subscribe'') ps draws of
           None \<Rightarrow> None
         | Some (s2, eff, None, rest) \<Rightarrow> Some (s2, eff, rest)
         | Some (s2, eff, Some p, rest) \<Rightarrow>
             Some (s2\<lparr>awaiting := awaiting s2 @ [(p, \<lparr>callback = cb, args = ps, resubscription = again\<rparr>)]\<rparr>,
                   eff, rest)))"

definition unsubscribe ::
  "session \<Rightarrow> string \<Rightarrow> json list \<Rightarrow> int list \<Rightarrow> (session \<times> effect list \<times> nat option \<times> int list) option"
where
  "unsubscribe s m ps draws =
     (let k = subscriptionKey m (first_arg ps);
          deleted = (map_of (subscriptions s) k \<noteq> None);
          s1 = s\<lparr>subscriptions := AList.delete k (subscriptions s)\<rparr>
      in if deleted then request s1 (m @ ''.unsubscribe'') ps draws
         else Some (s1, [], None, draws))"


section \<open>Session manager: frame assembly and dispatch\<close>

text \<open>
  \<^verbatim>\<open>JSON.parse\<close> is a parameter \<open>parse\<close> of the functions below: \<open>None\<close> is its
  \<^verbatim>\<open>SyntaxError\<close>.
\<close>

definition recognized :: "json option \<Rightarrow> bool" where
  "recognized r =
     (case r of
        None \<Rightarrow> False
      | Some parsed \<Rightarrow> isRpcResponse parsed \<or> isRpcRequest parsed)"

function parseLine :: "(string \<Rightarrow> json option) \<Rightarrow> session \<Rightarrow> string \<Rightarrow> session \<times> json option" where
  "parseLine parse s line =
     (if recognized (parse line) then (s\<lparr>incompleteMessage := []\<rparr>, parse line)
      else if incompleteMessage s \<noteq> [] \<and> \<not> str_includes line (incompleteMessage s)
        then parseLine parse s (incompleteMessage s @ line)
      else (s\<lparr>incompleteMessage := line\<rparr>, None))"
  by pat_completeness auto
termination
proof (relation "measure (\<lambda>(parse, s, line).
          if incompleteMessage s \<noteq> [] \<and> \<not> str_includes line (incompleteMessage s) then 1 else 0)")
  show "wf (measure (\<lambda>(parse, s, line).
          if incompleteMessage s \<noteq> [] \<and> \<not> str_includes line (incompleteMessage s)
          then 1 else (0::nat)))"
    by simp
next
  fix parse :: "string \<Rightarrow> json option" and s :: session and line :: string
  have starts: "startsWith (b @ l) b" for b l :: string
    by (induction b) simp_all
  have "str_includes (b @ l) b" for b l :: string
  proof (cases "b @ l")
    case Nil
    then show ?thesis by simp
  next
    case (Cons c cs)
    have "startsWith (c # cs) b" using starts [of b l] Cons by simp
    then show ?thesis using Cons by simp
  qed
  then have "str_includes (incompleteMessage s @ line) (incompleteMessage s)" .
  moreover assume "incompleteMessage s \<noteq> [] \<and> \<not> str_includes line (incompleteMessage s)"
  ultimately show "((parse, s, incompleteMessage s @ line), parse, s, line)
       \<in> measure (\<lambda>(parse, s, line).
          if incompleteMessage s \<noteq> [] \<and> \<not> str_includes line (incompleteMessage s) then 1 else 0)"
    by simp
qed

text \<open>
  The string conversion \<^verbatim>\<open>new Error(v)\<close> applies to a value that is not a string:
  an array joins its elements with commas (\<^verbatim>\<open>null\<close> elements as empty strings), an
  object is \<^verbatim>\<open>[object Object]\<close>, and an object with a property \<^verbatim>\<open>toString\<close> of its own
  (never a function, after \<^verbatim>\<open>JSON.parse\<close>) makes the conversion throw a \<^verbatim>\<open>TypeError\<close>:
  \<open>None\<close>.
\<close>

fun js_toString :: "json \<Rightarrow> string option"
  and js_join :: "json list \<Rightarrow> string option"
where
  "js_toString JNull = Some ''null''"
| "js_toString (JBool b) = Some (if b then ''true'' else ''false'')"
| "js_toString (JNum n) = Some (show_int n)"
| "js_toString (JStr s) = Some s"
| "js_toString (JArr xs) = js_join xs"
| "js_toString (JObj kvs) =
     (if map_of kvs ''toString'' \<noteq> None then None else Some ''[object Object]'')"
| "js_join [] = Some []"
| "js_join (x # xs) =
     (case (if x = JNull then Some [] else js_toString x) of
        None \<Rightarrow> None
      | Some a \<Rightarrow>
          if xs = [] then Some a
          else (case js_join xs of
                  None \<Rightarrow> None
                | Some b \<Rightarrow> Some (a @ '','' @ b)))"

text \<open>
  The \<^verbatim>\<open>try\<close>/\<^verbatim>\<open>catch\<close> around \<^verbatim>\<open>new RPCError(errorMsg)\<close>: the error the request is
  rejected with. On a value that is not a string \<^verbatim>\<open>str.match\<close> raises a \<^verbatim>\<open>TypeError\<close>,
  which the \<^verbatim>\<open>catch\<close> takes like the constructor's own exception. \<open>None\<close>: the
  \<^verbatim>\<open>new Error(errorMsg)\<close> of the \<^verbatim>\<open>catch\<close> block throws.
\<close>

fun rejection :: "json option \<Rightarrow> js_error option" where
  "rejection None = Some (Error [])"
| "rejection (Some (JStr m)) =
     (case RPCError_new m of
        Inr e \<Rightarrow> Some (RPCError e)
      | Inl thrown \<Rightarrow> Some (Error m))"
| "rejection (Some v) = map_option Error (js_toString v)"

text \<open>\<^verbatim>\<open>typeof response.error === 'string' ? response.error : response.error.message\<close>\<close>

fun errorMsg :: "json \<Rightarrow> json option" where
  "errorMsg (JStr e) = Some (JStr e)"
| "errorMsg err = get_prop err ''message''"

text \<open>
  The first half of the loop body of \<^verbatim>\<open>onMessage\<close>: a response whose id is in the
  table. The third component tells that an exception left the handler.
\<close>

definition dispatch_response :: "session \<Rightarrow> json \<Rightarrow> session \<times> effect list \<times> bool" where
  "dispatch_response s response =
     (case get_prop response ''id'' of
        Some (JNum i) \<Rightarrow>
          (case map_of (requests s) i of
             None \<Rightarrow> (s, [], False)
           | Some req \<Rightarrow>
               (let s1 = clearTimeout s (Some (timeout req));
                    s2 = s1\<lparr>requests := AList.delete i (requests s1)\<rparr>
                in case get_prop response ''result'' of
                     Some v \<Rightarrow> (s2, [Resolve (promise req) v], False)
                   | None \<Rightarrow>
                       (case get_prop response ''error'' of
                          None \<Rightarrow> (s2, [Reject (promise req) (Error ''No result'')], False)
                        | Some err \<Rightarrow>
                            if truthy (Some err) then
                              (case rejection (errorMsg err) of
                                 Some e \<Rightarrow> (s2, [Reject (promise req) e], False)
                               | None \<Rightarrow> (s2, [], True))
                            else (s2, [Reject (promise req) (Error ''No result'')], False))))
      | _ \<Rightarrow> (s, [], False))"

text \<open>\<^verbatim>\<open>params[0]\<close> and \<^verbatim>\<open>...params\<close> on whatever value \<^verbatim>\<open>response.params || []\<close> is.\<close>

fun index0 :: "json \<Rightarrow> json option" where
  "index0 (JArr xs) = first_arg xs"
| "index0 (JStr cs) = (case cs of [] \<Rightarrow> None | c # rest \<Rightarrow> Some (JStr [c]))"
| "index0 (JObj kvs) = map_of kvs ''0''"
| "index0 _ = None"

fun spread :: "json \<Rightarrow> json list option" where
  "spread (JArr xs) = Some xs"
| "spread (JStr cs) = Some (map (\<lambda>c. JStr [c]) cs)"
| "spread _ = None"

text \<open>
  The second half of the loop body: a message with a \<^verbatim>\<open>method\<close> that ends with
  \<^verbatim>\<open>subscribe\<close>. \<open>None\<close> is a \<^verbatim>\<open>TypeError\<close>: \<^verbatim>\<open>endsWith\<close> on a method that is not a
  string, or the spread of parameters that cannot be iterated.
\<close>

definition dispatch_push :: "session \<Rightarrow> json \<Rightarrow> effect list option" where
  "dispatch_push s response =
     (case get_prop response ''method'' of
        None \<Rightarrow> Some []
      | Some (JStr m) \<Rightarrow>
          if endsWith m ''subscribe'' then
            (let method' = remove_first m ''.subscribe'';
                 params = (case get_prop response ''params'' of
                             None \<Rightarrow> JArr []
                           | Some ps \<Rightarrow> if truthy (Some ps) then ps else JArr []);
                 k = subscriptionKey method' (index0 params)
             in case map_of (subscriptions s) k of
                  None \<Rightarrow> Some []
                | Some cb \<Rightarrow> map_option (\<lambda>xs. [Callback cb xs]) (spread params))
          else Some []
      | Some other \<Rightarrow> None)"

definition handle_line ::
  "(string \<Rightarrow> json option) \<Rightarrow> session \<Rightarrow> string \<Rightarrow> session \<times> effect list \<times> bool"
where
  "handle_line parse s line =
     (case parseLine parse s line of
        (s1, None) \<Rightarrow> (s1, [], False)
      | (s1, Some response) \<Rightarrow>
          (case dispatch_response s1 response of
             (s2, e1, True) \<Rightarrow> (s2, Fire MESSAGE (Some response) # e1, True)
           | (s2, e1, False) \<Rightarrow>
               (case dispatch_push s2 response of
                  None \<Rightarrow> (s2, Fire MESSAGE (Some response) # e1, True)
                | Some e2 \<Rightarrow> (s2, Fire MESSAGE (Some response) # e1 @ e2, False))))"

fun handle_lines ::
  "(string \<Rightarrow> json option) \<Rightarrow> session \<Rightarrow> string list \<Rightarrow> session \<times> effect list \<times> bool"
where
  "handle_lines parse s [] = (s, [], False)"
| "handle_lines parse s (line # rest) =
     (case handle_line parse s line of
        (s1, e1, True) \<Rightarrow> (s1, e1, True)
      | (s1, e1, False) \<Rightarrow>
          (case handle_lines parse s1 rest of
             (s2, e2, thrown) \<Rightarrow> (s2, e1 @ e2, thrown)))"

definition is_separator :: "char \<Rightarrow> bool" where
  "is_separator c = (c = CHR 0x0D \<or> c = CHR 0x0A \<or> c = CHR '' '')"

text \<open>\<^verbatim>\<open>onMessage\<close> on the text of a delivery (binary data is decoded before).\<close>

definition lines_of :: "string \<Rightarrow> string list" where
  "lines_of raw = filter (\<lambda>line. length line > 0) (split_on is_separator raw)"

definition onMessage ::
  "(string \<Rightarrow> json option) \<Rightarrow> session \<Rightarrow> string \<Rightarrow> session \<times> effect list \<times> bool"
where
  "onMessage parse s raw = handle_lines parse s (lines_of raw)"

text \<open>The socket's deliveries, each given to \<^verbatim>\<open>onMessage\<close> in turn.\<close>

fun deliveries ::
  "(string \<Rightarrow> json option) \<Rightarrow> session \<Rightarrow> string list \<Rightarrow> session \<times> effect list"
where
  "deliveries parse s [] = (s, [])"
| "deliveries parse s (raw # raws) =
     (case onMessage parse s raw of
        (s1, e1, thrown) \<Rightarrow>
          (case deliveries parse s1 raws of (s2, e2) \<Rightarrow> (s2, e1 @ e2)))"

section \<open>Session manager: connection life cycle\<close>

text \<open>
  The object store: \<^verbatim>\<open>ElectrumWS.DEFAULT_OPTIONS\<close> is one object, at a fixed address;
  \<^verbatim>\<open>Object.assign(target, source)\<close> writes the properties of \<open>source\<close> into the object
  at \<open>target\<close> and returns \<open>target\<close>.
\<close>

type_synonym store = "nat \<Rightarrow> ElectrumWSOptions"

definition DEFAULT_OPTIONS :: nat where
  "DEFAULT_OPTIONS = 0"

definition initial_store :: store where
  "initial_store = (\<lambda>r. \<lparr>token = None, reconnect = True, verbose = False\<rparr>)"

definition Object_assign :: "store \<Rightarrow> nat \<Rightarrow> PartialOptions \<Rightarrow> store \<times> nat" where
  "Object_assign h target source =
     (h(target :=
          \<lparr>token = (case opt_token source of None \<Rightarrow> token (h target) | Some t \<Rightarrow> Some t),
           reconnect = (case opt_reconnect source of None \<Rightarrow> reconnect (h target) | Some b \<Rightarrow> b),
           verbose = (case opt_verbose source of None \<Rightarrow> verbose (h target) | Some b \<Rightarrow> b)\<rparr>),
      target)"

definition connect :: "store \<Rightarrow> session \<Rightarrow> session \<times> effect list" where
  "connect h s =
     (let u = (case token (h (options s)) of
                 None \<Rightarrow> endpoint s
               | Some t \<Rightarrow> if t = [] then endpoint s else endpoint s @ ''?token='' @ t)
      in (s\<lparr>ws := \<lparr>url = u, state = CONNECTING\<rparr>\<rparr>, [WsNew u]))"

text \<open>
  The constructor. The listeners it registers when \<^verbatim>\<open>verbose\<close> is set only write to
  the console, which is not part of the state.
\<close>

definition ElectrumWS_new :: "store \<Rightarrow> string \<Rightarrow> PartialOptions \<Rightarrow> store \<times> session \<times> effect list" where
  "ElectrumWS_new h ep opts =
     (let (h1, r) = Object_assign h DEFAULT_OPTIONS opts;
          (s1, eff) = connect h1
            \<lparr>options = r, endpoint = ep, requests = [], subscriptions = [],
             connected = False, connectedTimeout = None, reconnectionTimeout = None,
             incompleteMessage = [], ws = \<lparr>url = [], state = CLOSED\<rparr>,
             timers = [], next_timer = 0, next_promise = 0,
             once_connected = [], once_close = [], awaiting = []\<rparr>
      in (h1, s1, eff))"

text \<open>
  The loop of \<^verbatim>\<open>close\<close> over the table: each entry's timer is cleared, the entry is
  deleted and its promise rejected with the reason.
\<close>

fun reject_pending :: "session \<Rightarrow> (int \<times> request) list \<Rightarrow> string \<Rightarrow> session \<times> effect list" where
  "reject_pending s [] reason = (s, [])"
| "reject_pending s ((i, req) # rest) reason =
     (let s1 = clearTimeout s (Some (timeout req));
          s2 = s1\<lparr>requests := AList.delete i (requests s1)\<rparr>;
          (s3, eff) = reject_pending s2 rest reason
      in (s3, Reject (promise req) (Error reason) # eff))"

text \<open>
  \<^verbatim>\<open>close\<close>: the result is \<open>Inl True\<close> when it returns \<^verbatim>\<open>true\<close> at once, and \<open>Inr p\<close>
  when it returns the promise \<open>p\<close> that the next \<^verbatim>\<open>CLOSE\<close> event resolves. A socket
  asked to close is in the state \<^verbatim>\<open>CLOSING\<close> until its close event.
\<close>

definition close :: "store \<Rightarrow> session \<Rightarrow> string \<Rightarrow> store \<times> session \<times> effect list \<times> (bool + nat)" where
  "close h s reason =
     (let h1 = h(options s := (h (options s))\<lparr>reconnect := False\<rparr>);
          (s1, eff) = reject_pending s (requests s) reason;
          s2 = clearTimeout s1 (reconnectionTimeout s1)
      in if state (ws s2) = CONNECTING \<or> state (ws s2) = OPENED then
           (h1,
            s2\<lparr>next_promise := Suc (next_promise s2),
               once_close := once_close s2 @ [next_promise s2],
               ws := (ws s2)\<lparr>state := CLOSING\<rparr>\<rparr>,
            eff @ [WsClose CLOSE_CODE reason],
            Inr (next_promise s2))
         else (h1, s2, eff, Inl True))"

definition onOpen :: "session \<Rightarrow> session \<times> effect list" where
  "onOpen s =
     (let (s1, t) = setTimeout s ConnectedTimer CONNECTED_TIMEOUT
      in (s1\<lparr>connectedTimeout := Some t\<rparr>, [Fire OPEN None]))"

definition onError :: "session \<Rightarrow> json option \<Rightarrow> session \<times> effect list" where
  "onError s err = (if truthy err then (s, [Fire ERROR err]) else (s, []))"

text \<open>
  \<^verbatim>\<open>onClose\<close>. Publishing \<^verbatim>\<open>CLOSE\<close> runs the listeners \<^verbatim>\<open>close\<close> registered with
  \<^verbatim>\<open>once\<close>, each resolving its promise with \<^verbatim>\<open>true\<close>.
\<close>

definition onClose :: "store \<Rightarrow> session \<Rightarrow> json option \<Rightarrow> session \<times> effect list" where
  "onClose h s ev =
     (let e1 = Fire CLOSE ev # map (\<lambda>p. Resolve p (JBool True)) (once_close s);
          s1 = s\<lparr>once_close := []\<rparr>;
          s2 = (if \<not> connected s1 then clearTimeout s1 (connectedTimeout s1) else s1);
          e2 = (if \<not> connected s1 then [] else [Fire DISCONNECTED None]);
          (s3, e3) =
            (if reconnect (h (options s2)) \<and> connected s2 then
               (let (s', t) = setTimeout s2 ReconnectTimer RECONNECT_TIMEOUT
                in (s'\<lparr>reconnectionTimeout := Some t\<rparr>, [Fire RECONNECTING None]))
             else (s2, []))
      in (s3\<lparr>connected := False\<rparr>, e1 @ e2 @ e3))"

text \<open>
  The body of the loop of \<^verbatim>\<open>onOpen\<close>'s timer over the registry: the key is split at
  every \<^verbatim>\<open>-\<close>, the first piece is the method, the others are the parameters.
\<close>

definition is_dash :: "char \<Rightarrow> bool" where
  "is_dash c = (c = CHR ''-'')"

definition resubscribe ::
  "session \<Rightarrow> string \<times> nat \<Rightarrow> int list \<Rightarrow> (session \<times> effect list \<times> int list) option"
where
  "resubscribe s entry draws =
     (case split_on is_dash (fst entry) of
        [] \<Rightarrow> Some (s, [], draws)
      | m # ps \<Rightarrow>
          if m = [] then Some (s, [], draws)
          else subscribe s True m (snd entry) (map JStr ps) draws)"

text \<open>
  The loop itself. A \<^verbatim>\<open>Map\<close> iterator is live: an entry that \<^verbatim>\<open>subscribe\<close> appends
  while the loop runs is visited too, and \<^verbatim>\<open>set\<close> on a key that exists keeps its
  place. So the loop walks the registry by position, from \<open>i\<close>. It ends because a key
  that is appended is shorter than the key being visited.
\<close>

function resubscribe_from ::
  "nat \<Rightarrow> session \<Rightarrow> int list \<Rightarrow> (session \<times> effect list \<times> int list) option"
where
  "resubscribe_from i s draws =
     (if i < length (subscriptions s) then
        (case resubscribe s (subscriptions s ! i) draws of
           None \<Rightarrow> None
         | Some (s1, e1, d1) \<Rightarrow>
             (case resubscribe_from (Suc i) s1 d1 of
                None \<Rightarrow> None
              | Some (s2, e2, d2) \<Rightarrow> Some (s2, e1 @ e2, d2)))
      else Some (s, [], draws))"
  by pat_completeness auto
termination
proof (relation "measure (\<lambda>(i, s, draws).
          sum_list (map (\<lambda>entry. 2 ^ length (fst entry)) (drop i (subscriptions s))))")
  show "wf (measure (\<lambda>(i, s, draws).
          sum_list (map (\<lambda>entry. (2::nat) ^ length (fst entry)) (drop i (subscriptions s)))))"
    by simp
next
  fix i :: nat and s :: session and draws :: "int list"
    and x2 :: "session \<times> effect list \<times> int list" and s1 :: session
    and y :: "effect list \<times> int list" and e1 :: "effect list" and d1 :: "int list"
  assume i: "i < length (subscriptions s)"
    and r: "resubscribe s (subscriptions s ! i) draws = Some x2"
    and x2: "(s1, y) = x2" and y: "(e1, d1) = y"
  let ?subs = "subscriptions s"
  let ?w = "\<lambda>entry :: string \<times> nat. (2::nat) ^ length (fst entry)"
  let ?v = "\<lambda>k :: string. (2::nat) ^ length k"
  have pieces: "\<exists>p rest. split_on is_dash cs = p # rest" for cs
    by (cases cs) (simp_all split: list.splits)
  have shorter: "split_on is_dash k = m # ps \<Longrightarrow>
      subscriptionKey m (first_arg (map JStr ps)) = k
      \<or> length (subscriptionKey m (first_arg (map JStr ps))) < length k" for k m ps
  proof (induction k arbitrary: m ps)
    case Nil
    then show ?case by simp
  next
    case (Cons c cs)
    obtain p rest where pr: "split_on is_dash cs = p # rest"
      using pieces by blast
    note ih = Cons.IH [OF pr]
    show ?case
    proof (cases "is_dash c")
      case True
      with Cons.prems pr have m: "m = []" and ps: "ps = p # rest" by simp_all
      have "length p \<le> length (subscriptionKey p (first_arg (map JStr rest)))"
        by (cases rest) simp_all
      then show ?thesis using ih m ps True
        by (cases rest) (auto simp: is_dash_def)
    next
      case False
      with Cons.prems pr have "m = c # p" and "ps = rest" by simp_all
      then show ?thesis using ih by (cases rest) auto
    qed
  qed
  have registered: "subscribe s0 again m cb ps ds = Some (s', eff, rest) \<Longrightarrow>
      subscriptions s' = AList.update (subscriptionKey m (first_arg ps)) cb (subscriptions s0)"
    for s0 again m cb ps ds s' eff rest
    by (auto simp: subscribe_def request_def request_send_def createRequestPromise_def
        setTimeout_def Let_def split: option.splits if_splits prod.splits)
  obtain k cb where entry: "?subs ! i = (k, cb)" by (cases "?subs ! i")
  have drop_i: "drop i ?subs = (k, cb) # drop (Suc i) ?subs"
    using i entry by (simp add: Cons_nth_drop_Suc [symmetric])
  have k_in: "k \<in> fst ` set ?subs"
    using i entry by (metis fst_conv image_eqI nth_mem)
  have keys_i: "drop i (map fst ?subs) = k # drop (Suc i) (map fst ?subs)"
  proof -
    have "drop i (map fst ?subs) = map fst (drop i ?subs)" by (simp add: drop_map)
    also have "\<dots> = k # map fst (drop (Suc i) ?subs)" using drop_i by simp
    finally show ?thesis by (simp add: drop_map)
  qed
  have "sum_list (map ?v (drop (Suc i) (map fst (subscriptions s1))))
      < sum_list (map ?v (drop i (map fst ?subs)))"
  proof (cases "map fst (subscriptions s1) = map fst ?subs")
    case True
    then show ?thesis using keys_i by simp
  next
    case False
    from r x2 y have "resubscribe s (k, cb) draws = Some (s1, e1, d1)"
      using entry by simp
    then obtain m ps where sp: "split_on is_dash k = m # ps"
      and sub: "subscribe s True m cb (map JStr ps) draws = Some (s1, e1, d1)"
      using False by (auto simp: resubscribe_def split: list.splits if_splits)
    let ?k' = "subscriptionKey m (first_arg (map JStr ps))"
    have s1: "subscriptions s1 = AList.update ?k' cb ?subs"
      using registered [OF sub] .
    have notin: "?k' \<notin> fst ` set ?subs"
    proof
      assume "?k' \<in> fst ` set ?subs"
      then have "map fst (AList.update ?k' cb ?subs) = map fst ?subs"
        by (simp add: update_keys)
      with False s1 show False by simp
    qed
    then have keys1: "map fst (subscriptions s1) = map fst ?subs @ [?k']"
      using s1 by (simp add: update_keys)
    have "?k' \<noteq> k" using notin k_in by auto
    with shorter [OF sp] have "length ?k' < length k" by simp
    then have "?v ?k' < ?v k" by simp
    moreover have "drop (Suc i) (map fst (subscriptions s1)) = drop (Suc i) (map fst ?subs) @ [?k']"
      using keys1 i by simp
    ultimately show ?thesis using keys_i by simp
  qed
  then have "sum_list (map ?w (drop (Suc i) (subscriptions s1))) < sum_list (map ?w (drop i ?subs))"
    by (simp add: drop_map comp_def)
  then show "((Suc i, s1, d1), i, s, draws)
       \<in> measure (\<lambda>(i, s, draws).
          sum_list (map (\<lambda>entry. 2 ^ length (fst entry)) (drop i (subscriptions s))))"
    by simp
qed

text \<open>
  The calls parked on \<^verbatim>\<open>CONNECTED\<close> go on, in the order they were parked, when the
  timer's callback has returned.
\<close>

fun resume :: "session \<Rightarrow> waiter list \<Rightarrow> int list \<Rightarrow> (session \<times> effect list \<times> int list) option" where
  "resume s [] draws = Some (s, [], draws)"
| "resume s (AwaitRequest i m payload # rest) draws =
     (case request_send s i m payload of
        (s1, e1, p) \<Rightarrow>
          (case resume s1 rest draws of
             None \<Rightarrow> None
           | Some (s2, e2, d2) \<Rightarrow> Some (s2, e1 @ e2, d2)))"
| "resume s (AwaitBatch rs # rest) draws =
     (case batch_send s rs draws of
        None \<Rightarrow> None
      | Some (s1, e1, ps, d1) \<Rightarrow>
          (case resume s1 rest d1 of
             None \<Rightarrow> None
           | Some (s2, e2, d2) \<Rightarrow> Some (s2, e1 @ e2, d2)))"

text \<open>The callback of the timer \<^verbatim>\<open>onOpen\<close> sets, followed by the parked calls.\<close>

definition connected_callback :: "session \<Rightarrow> int list \<Rightarrow> (session \<times> effect list \<times> int list) option" where
  "connected_callback s draws =
     (let parked = once_connected s;
          s1 = s\<lparr>connected := True, once_connected := []\<rparr>
      in case resubscribe_from 0 s1 draws of
           None \<Rightarrow> None
         | Some (s2, e2, d2) \<Rightarrow>
             (case resume s2 parked d2 of
                None \<Rightarrow> None
              | Some (s3, e3, d3) \<Rightarrow> Some (s3, Fire CONNECTED None # e2 @ e3, d3)))"

definition timeout_message :: "int \<Rightarrow> string \<Rightarrow> string" where
  "timeout_message i m = ''ElectrumWS request timeout. request ID: '' @ show_int i @ '' ('' @ m @ '')''"

text \<open>
  A scheduled timer fires: it leaves the schedule and its callback runs. A handle that
  is not scheduled does nothing.
\<close>

definition fire_timer ::
  "store \<Rightarrow> session \<Rightarrow> nat \<Rightarrow> int list \<Rightarrow> (session \<times> effect list \<times> int list) option"
where
  "fire_timer h s t draws =
     (case map_of (timers s) t of
        None \<Rightarrow> Some (s, [], draws)
      | Some action \<Rightarrow>
          (let s1 = s\<lparr>timers := AList.delete t (timers s)\<rparr> in
           case action of
             RequestTimer i m p delay \<Rightarrow>
               Some (s1\<lparr>requests := AList.delete i (requests s1)\<rparr>,
                     [Reject p (Error (timeout_message i m))], draws)
           | ConnectedTimer delay \<Rightarrow> connected_callback s1 draws
           | ReconnectTimer delay \<Rightarrow>
               (case connect h s1 of (s2, eff) \<Rightarrow> Some (s2, eff, draws))))"

text \<open>
  What the suspended \<^verbatim>\<open>subscribe\<close> calls do once a handler has returned and the promise
  they wait for is settled: on a result the callback is called with the parameters and
  the result; on a rejection of a call made by \<^verbatim>\<open>onOpen\<close> the \<^verbatim>\<open>catch\<close> handler closes
  a socket that is connecting or open.
\<close>

fun error_message :: "js_error \<Rightarrow> string" where
  "error_message (Error m) = m"
| "error_message (RPCError e) = message e"

fun continuation :: "session \<Rightarrow> effect \<Rightarrow> session \<times> effect list" where
  "continuation s (Resolve p v) =
     (case map_of (awaiting s) p of
        None \<Rightarrow> (s, [])
      | Some sub \<Rightarrow>
          (s\<lparr>awaiting := AList.delete p (awaiting s)\<rparr>, [Callback (callback sub) (args sub @ [v])]))"
| "continuation s (Reject p e) =
     (case map_of (awaiting s) p of
        None \<Rightarrow> (s, [])
      | Some sub \<Rightarrow>
          (let s1 = s\<lparr>awaiting := AList.delete p (awaiting s)\<rparr> in
           if resubscription sub \<and> (state (ws s1) = CONNECTING \<or> state (ws s1) = OPENED)
           then (s1\<lparr>ws := (ws s1)\<lparr>state := CLOSING\<rparr>\<rparr>, [WsClose CLOSE_CODE (error_message e)])
           else (s1, [])))"
| "continuation s other = (s, [])"

fun continuations :: "session \<Rightarrow> effect list \<Rightarrow> session \<times> effect list" where
  "continuations s [] = (s, [])"
| "continuations s (e # es) =
     (case continuation s e of
        (s1, e1) \<Rightarrow> (case continuations s1 es of (s2, e2) \<Rightarrow> (s2, e1 @ e2)))"

section \<open>Session manager: one step of the event loop\<close>

text \<open>
  What can happen to a session: a call of its interface, an event of its socket, a timer
  that fires. The random outcomes a step may consume come with the event.
\<close>

datatype event =
    CallRequest string "json list" "int list"
  | CallBatchRequest "(string \<times> json list) list" "int list"
  | CallSubscribe string nat "json list" "int list"
  | CallUnsubscribe string "json list" "int list"
  | CallClose string
  | SocketOpen
  | SocketMessage string
  | SocketError "json option"
  | SocketClose "json option"
  | TimerFires nat "int list"

text \<open>
  The handler of an event. A socket delivers \<^verbatim>\<open>open\<close> only while connecting, messages
  only while open or closing, and \<^verbatim>\<open>close\<close> once; a timer fires only while it is
  scheduled. \<open>None\<close>: the event cannot occur in this state, or a probing loop has not
  ended with the outcomes given.
\<close>

definition handler ::
  "(string \<Rightarrow> json option) \<Rightarrow> store \<Rightarrow> session \<Rightarrow> event \<Rightarrow> (store \<times> session \<times> effect list) option"
where
  "handler parse h s ev =
     (case ev of
        CallRequest m ps draws \<Rightarrow>
          map_option (\<lambda>(s1, eff, p, rest). (h, s1, eff)) (request s m ps draws)
      | CallBatchRequest rs draws \<Rightarrow>
          map_option (\<lambda>(s1, eff, ps, rest). (h, s1, eff)) (batchRequest s rs draws)
      | CallSubscribe m cb ps draws \<Rightarrow>
          map_option (\<lambda>(s1, eff, rest). (h, s1, eff)) (subscribe s False m cb ps draws)
      | CallUnsubscribe m ps draws \<Rightarrow>
          map_option (\<lambda>(s1, eff, p, rest). (h, s1, eff)) (unsubscribe s m ps draws)
      | CallClose reason \<Rightarrow>
          (case close h s reason of (h1, s1, eff, res) \<Rightarrow> Some (h1, s1, eff))
      | SocketOpen \<Rightarrow>
          if state (ws s) = CONNECTING then
            (case onOpen (s\<lparr>ws := (ws s)\<lparr>state := OPENED\<rparr>\<rparr>) of (s1, eff) \<Rightarrow> Some (h, s1, eff))
          else None
      | SocketMessage raw \<Rightarrow>
          if state (ws s) = OPENED \<or> state (ws s) = CLOSING then
            (case onMessage parse s raw of (s1, eff, thrown) \<Rightarrow> Some (h, s1, eff))
          else None
      | SocketError err \<Rightarrow>
          (case onError s err of (s1, eff) \<Rightarrow> Some (h, s1, eff))
      | SocketClose ev' \<Rightarrow>
          if state (ws s) \<noteq> CLOSED then
            (case onClose h (s\<lparr>ws := (ws s)\<lparr>state := CLOSED\<rparr>\<rparr>) ev' of (s1, eff) \<Rightarrow> Some (h, s1, eff))
          else None
      | TimerFires t draws \<Rightarrow>
          if map_of (timers s) t \<noteq> None then
            map_option (\<lambda>(s1, eff, rest). (h, s1, eff)) (fire_timer h s t draws)
          else None)"

text \<open>A step: the handler, then the suspended calls whose promise the handler settled.\<close>

definition step ::
  "(string \<Rightarrow> json option) \<Rightarrow> store \<times> session \<Rightarrow> event \<Rightarrow> (store \<times> session \<times> effect list) option"
where
  "step parse hs ev =
     (case handler parse (fst hs) (snd hs) ev of
        None \<Rightarrow> None
      | Some (h1, s1, eff) \<Rightarrow>
          (case continuations s1 eff of (s2, later) \<Rightarrow> Some (h1, s2, eff @ later)))"

fun run ::
  "(string \<Rightarrow> json option) \<Rightarrow> store \<times> session \<Rightarrow> event list \<Rightarrow> (store \<times> session \<times> effect list) option"
where
  "run parse hs [] = Some (fst hs, snd hs, [])"
| "run parse hs (ev # evs) =
     (case step parse hs ev of
        None \<Rightarrow> None
      | Some (h1, s1, e1) \<Rightarrow>
          (case run parse (h1, s1) evs of
             None \<Rightarrow> None
           | Some (h2, s2, e2) \<Rightarrow> Some (h2, s2, e1 @ e2)))"

text \<open>A new session on a fresh store, and the events that bring it to \<^verbatim>\<open>Connected\<close>.\<close>

definition no_options :: PartialOptions where
  "no_options = \<lparr>opt_token = None, opt_reconnect = None, opt_verbose = None\<rparr>"

definition fresh :: "store \<times> session" where
  "fresh = (case ElectrumWS_new initial_store ''ws://127.0.0.1:1234'' no_options of
              (h, s, eff) \<Rightarrow> (h, s))"

section \<open>Reachable sessions\<close>



text \<open>
  What a call of \<^verbatim>\<open>request\<close>, \<^verbatim>\<open>batchRequest\<close>, \<^verbatim>\<open>subscribe\<close> or \<^verbatim>\<open>unsubscribe\<close> and the
  handling of a message may change: the socket, the flag, the two handles and the
  listeners of \<^verbatim>\<open>close\<close> stay; the only timers added are deadlines of requests.
\<close>

fun is_request_timer :: "timer \<Rightarrow> bool" where
  "is_request_timer (RequestTimer i m p d) = True"
| "is_request_timer other = False"

definition later :: "session \<Rightarrow> session \<Rightarrow> bool" where
  "later s s' \<longleftrightarrow>
     ws s' = ws s \<and> connected s' = connected s
   \<and> connectedTimeout s' = connectedTimeout s
   \<and> reconnectionTimeout s' = reconnectionTimeout s
   \<and> once_close s' = once_close s
   \<and> next_timer s \<le> next_timer s'
   \<and> (\<forall>t a. map_of (timers s') t = Some a \<longrightarrow>
         map_of (timers s) t = Some a
         \<or> (is_request_timer a \<and> next_timer s \<le> t \<and> t < next_timer s'))"

section \<open>Example data\<close>

text \<open>
  \<^verbatim>\<open>JSON.parse\<close> on the texts of an example: the table lists the texts that are valid
  JSON, with their values; any other text is a syntax error.
\<close>

definition parse_table :: "(string \<times> json) list \<Rightarrow> string \<Rightarrow> json option" where
  "parse_table table text = map_of table text"

text \<open>A response to request 5 with the result 42, in three pieces.\<close>

definition piece1 :: string where
  \<open>piece1 = ''{"jsonrpc":"2.0",''\<close>

definition piece2 :: string where
  \<open>piece2 = ''"id":5,''\<close>

definition piece3 :: string where
  \<open>piece3 = ''"result":42}''\<close>

definition answer5 :: json where
  "answer5 = JObj [(''jsonrpc'', JStr ''2.0''), (''id'', JNum 5), (''result'', JNum 42)]"

definition parse_answer5 :: "string \<Rightarrow> json option" where
  "parse_answer5 = parse_table [(piece1 @ piece2 @ piece3, answer5)]"

text \<open>
  A connected session with one request \<^verbatim>\<open>m\<close> pending under the id 5: the socket
  opens, the settle timer fires, \<^verbatim>\<open>request('m')\<close> draws 5.
\<close>

definition pending5 :: "store \<times> session" where
  "pending5 =
     (case run parse_answer5 fresh [SocketOpen, TimerFires 0 [], CallRequest ''m'' [] [5]] of
        None \<Rightarrow> fresh
      | Some (h, s, eff) \<Rightarrow> (h, s))"

text \<open>A response to request 5 whose \<^verbatim>\<open>error\<close> field is the empty string.\<close>

definition empty_error5 :: json where
  "empty_error5 = JObj [(''jsonrpc'', JStr ''2.0''), (''id'', JNum 5), (''error'', JStr [])]"

definition empty_error5_text :: string where
  \<open>empty_error5_text = ''{"jsonrpc":"2.0","id":5,"error":""}''\<close>

definition parse_empty_error5 :: "string \<Rightarrow> json option" where
  "parse_empty_error5 = parse_table [(empty_error5_text, empty_error5)]"





text \<open>A connected session with the request \<^verbatim>\<open>a\<close> pending under the id 6.\<close>

definition pending6 :: "store \<times> session" where
  "pending6 =
     (case run parse_answer5 fresh [SocketOpen, TimerFires 0 [], CallRequest ''a'' [] [6]] of
        None \<Rightarrow> fresh
      | Some (h, s, eff) \<Rightarrow> (h, s))"

text \<open>The options \<^verbatim>\<open>{ reconnect: false }\<close>.\<close>

definition no_reconnect :: PartialOptions where
  "no_reconnect = \<lparr>opt_token = None, opt_reconnect = Some False, opt_verbose = None\<rparr>"

text \<open>
  A connected session on which \<^verbatim>\<open>subscribe('a.subscribe.b', cb)\<close> has been called, with
  the callback 7, and the push message of the method \<^verbatim>\<open>a.subscribe.b.subscribe\<close>.
\<close>

definition subscribed_twice :: "store \<times> session" where
  "subscribed_twice =
     (case run parse_answer5 fresh
             [SocketOpen, TimerFires 0 [], CallSubscribe ''a.subscribe.b'' 7 [] [1]] of
        None \<Rightarrow> fresh
      | Some (h, s, eff) \<Rightarrow> (h, s))"

definition push_twice :: json where
  "push_twice =
     JObj [(''jsonrpc'', JStr ''2.0''), (''method'', JStr ''a.subscribe.b.subscribe''),
           (''params'', JArr [JNum 1])]"

text \<open>
  A session on which \<^verbatim>\<open>subscribe('blockchain.scripthash', cb, 'abc123')\<close> and
  \<^verbatim>\<open>subscribe('blockchain.headers', cb')\<close> have been called, with the callbacks 1 and
  2, and a push message for the script hash.
\<close>

definition two_subscriptions :: "store \<times> session" where
  "two_subscriptions =
     (case run parse_answer5 fresh
             [CallSubscribe ''blockchain.scripthash'' 1 [JStr ''abc123''] [],
              CallSubscribe ''blockchain.headers'' 2 [] []] of
        None \<Rightarrow> fresh
      | Some (h, s, eff) \<Rightarrow> (h, s))"

definition push_scripthash :: json where
  "push_scripthash =
     JObj [(''jsonrpc'', JStr ''2.0''), (''method'', JStr ''blockchain.scripthash.subscribe''),
           (''params'', JArr [JStr ''abc123'', JStr ''status''])]"

section \<open>The example session, evaluated\<close>

declare parseLine.simps [simp del]
declare resubscribe_from.simps [simp del]
declare show_nat.simps [simp del]

lemmas construct_eval =
  fresh_def ElectrumWS_new_def Object_assign_def DEFAULT_OPTIONS_def no_options_def
  connect_def initial_store_def fun_eq_iff

lemmas step_eval =
  step_def handler_def onOpen_def onClose_def onError_def setTimeout_def fire_timer_def
  connected_callback_def resubscribe_from.simps resubscribe_def is_dash_def
  request_def request_send_def createRequestPromise_def batchRequest_def batch_send_def
  subscribe_def unsubscribe_def close_def clearTimeout_def make_payload_def Let_def
  CONNECTED_TIMEOUT_def REQUEST_TIMEOUT_def RECONNECT_TIMEOUT_def CLOSE_CODE_def

lemmas frame_eval =
  onMessage_def lines_of_def is_separator_def handle_line_def parseLine.simps
  recognized_def parse_table_def isRpcResponse_def isRpcRequest_def
  dispatch_response_def dispatch_push_def clearTimeout_def endsWith_def Let_def


lemma pending5_session:
  "pending5 =
     (initial_store,
      \<lparr>options = 0, endpoint = ''ws://127.0.0.1:1234'',
       requests = [(5, \<lparr>promise = 0, method = ''m'', timeout = 1\<rparr>)],
       subscriptions = [], connected = True, connectedTimeout = Some 0,
       reconnectionTimeout = None, incompleteMessage = [],
       ws = \<lparr>url = ''ws://127.0.0.1:1234'', state = OPENED\<rparr>,
       timers = [(1, RequestTimer 5 ''m'' 0 10000)], next_timer = 2, next_promise = 1,
       once_connected = [], once_close = [], awaiting = []\<rparr>)"
  by (simp add: pending5_def construct_eval step_eval)





lemma pending6_session:
  "pending6 =
     (initial_store,
      \<lparr>options = 0, endpoint = ''ws://127.0.0.1:1234'',
       requests = [(6, \<lparr>promise = 0, method = ''a'', timeout = 1\<rparr>)],
       subscriptions = [], connected = True, connectedTimeout = Some 0,
       reconnectionTimeout = None, incompleteMessage = [],
       ws = \<lparr>url = ''ws://127.0.0.1:1234'', state = OPENED\<rparr>,
       timers = [(1, RequestTimer 6 ''a'' 0 10000)], next_timer = 2, next_promise = 1,
       once_connected = [], once_close = [], awaiting = []\<rparr>)"
  by (simp add: pending6_def construct_eval step_eval)

lemma subscribed_twice_session:
  "subscribed_twice =
     (initial_store,
      \<lparr>options = 0, endpoint = ''ws://127.0.0.1:1234'',
       requests = [(1, \<lparr>promise = 0, method = ''a.subscribe.b.subscribe'', timeout = 1\<rparr>)],
       subscriptions = [(''a.subscribe.b'', 7)], connected = True, connectedTimeout = Some 0,
       reconnectionTimeout = None, incompleteMessage = [],
       ws = \<lparr>url = ''ws://127.0.0.1:1234'', state = OPENED\<rparr>,
       timers = [(1, RequestTimer 1 ''a.subscribe.b.subscribe'' 0 10000)],
       next_timer = 2, next_promise = 1, once_connected = [], once_close = [],
       awaiting = [(0, \<lparr>callback = 7, args = [], resubscription = False\<rparr>)]\<rparr>)"
  by (simp add: subscribed_twice_def construct_eval step_eval)

lemma two_subscriptions_session:
  "two_subscriptions =
     (initial_store,
      \<lparr>options = 0, endpoint = ''ws://127.0.0.1:1234'', requests = [],
       subscriptions = [(''blockchain.scripthash-abc123'', 1), (''blockchain.headers'', 2)],
       connected = False, connectedTimeout = None,
       reconnectionTimeout = None, incompleteMessage = [],
       ws = \<lparr>url = ''ws://127.0.0.1:1234'', state = CONNECTING\<rparr>,
       timers = [], next_timer = 0, next_promise = 0, once_connected = [], once_close = [],
       awaiting = []\<rparr>)"
  by (simp add: two_subscriptions_def construct_eval step_eval)

section \<open>Properties of the error classifier\<close>

lemma RPCError_new_absent:
  "findRPCErrorCode s = None \<Longrightarrow>
   RPCError_new s = Inl (Error ''Could not find RPC error code in string'')"
  by (simp add: RPCError_new_def)

lemma RPCError_new_nonzero:
  "findRPCErrorCode s = Some c \<Longrightarrow> c \<noteq> 0 \<Longrightarrow>
   \<exists>m. RPCError_new s = Inr \<lparr>message = m @ '' (code: '' @ show_int c @ '')'', str = s, code = None\<rparr>
     \<and> m = (case map_of JSON_RPC_ERRORS c of
              None \<Rightarrow> ''Unknown JSON RPC error''
            | Some m' \<Rightarrow> if m' = [] then ''Unknown JSON RPC error'' else m')"
  by (simp add: RPCError_new_def Let_def)

lemma RPCError_new_code_field:
  "RPCError_new s = Inr e \<Longrightarrow> code e = None"
  by (auto simp: RPCError_new_def Let_def split: option.splits if_splits)

text \<open>
  C8 (the code departs from the claim). The claim: when the pattern
  \<^verbatim>\<open>"code": <integer>\<close> is present in the raw text, classification succeeds, an
  unrecognised code giving the unknown-RPC-error message, and the error carries the
  numeric code. On the text \<^verbatim>\<open>{"code": 0}\<close> the pattern is present and
  \<^verbatim>\<open>findRPCErrorCode\<close> extracts the code 0, yet the constructor throws "Could not find RPC
  error code in string": its test \<^verbatim>\<open>!code\<close> takes the number 0 for the \<^verbatim>\<open>false\<close> of a
  failed match. On a text that does classify, \<^verbatim>\<open>{"code":-27}\<close>, the message is the
  canonical one followed by the code, and the declared field \<^verbatim>\<open>code\<close> is left
  unassigned.
\<close>

theorem RPCError_zero_code_throws:
  \<open>findRPCErrorCode ''{"code": 0}'' = Some 0
   \<and> RPCError_new ''{"code": 0}'' = Inl (Error ''Could not find RPC error code in string'')
   \<and> RPCError_new ''{"code":-27}'' =
       Inr \<lparr>message = ''Transaction already in chain (code: -27)'',
            str = ''{"code":-27}'', code = None\<rparr>\<close>
  by code_simp

section \<open>Properties of frame assembly\<close>

lemma str_includes_nil [simp]: "str_includes l []"
  by (cases l) simp_all

lemma startsWith_append [simp]: "startsWith (b @ l) b"
  by (induction b) simp_all

lemma str_includes_append [simp]: "str_includes (b @ l) b"
proof (cases "b @ l")
  case Nil
  then show ?thesis by simp
next
  case (Cons c cs)
  have "startsWith (b @ l) b" by simp
  then show ?thesis unfolding Cons by simp
qed

lemma parseLine_recognized:
  "recognized (parse line) \<Longrightarrow> parseLine parse s line = (s\<lparr>incompleteMessage := []\<rparr>, parse line)"
  by (subst parseLine.simps) simp




text \<open>\<^verbatim>\<open>parseLine\<close> touches the buffer and nothing else.\<close>

lemma parseLine_buffer_only:
  "parseLine parse s line = (s1, r) \<Longrightarrow> \<exists>b. s1 = s\<lparr>incompleteMessage := b\<rparr>"
proof (induction parse s line rule: parseLine.induct)
  case (1 parse s line)
  show ?case
  proof (cases "recognized (parse line)")
    case True
    with "1.prems" show ?thesis by (subst (asm) parseLine.simps) auto
  next
    case False
    show ?thesis
    proof (cases "incompleteMessage s \<noteq> [] \<and> \<not> str_includes line (incompleteMessage s)")
      case True
      with False "1.prems" have "parseLine parse s (incompleteMessage s @ line) = (s1, r)"
        by (subst (asm) parseLine.simps) simp
      with "1.IH" False True show ?thesis by blast
    next
      case no: False
      with False "1.prems" show ?thesis by (subst (asm) parseLine.simps) auto
    qed
  qed
qed

lemma parseLine_some_recognized:
  "parseLine parse s line = (s1, Some response) \<Longrightarrow> recognized (Some response)"
proof (induction parse s line rule: parseLine.induct)
  case (1 parse s line)
  show ?case
  proof (cases "recognized (parse line)")
    case True
    with "1.prems" show ?thesis by (subst (asm) parseLine.simps) auto
  next
    case False
    show ?thesis
    proof (cases "incompleteMessage s \<noteq> [] \<and> \<not> str_includes line (incompleteMessage s)")
      case True
      with False "1.prems" have "parseLine parse s (incompleteMessage s @ line) = (s1, Some response)"
        by (subst (asm) parseLine.simps) simp
      with "1.IH" False True show ?thesis by blast
    next
      case no: False
      with False "1.prems" show ?thesis by (subst (asm) parseLine.simps) auto
    qed
  qed
qed











section \<open>Properties of the dispatch of responses\<close>

lemma dispatch_push_no_settle:
  "dispatch_push s response = Some eff \<Longrightarrow>
   (\<forall>q v. Resolve q v \<notin> set eff) \<and> (\<forall>q e. Reject q e \<notin> set eff)"
  by (auto simp: dispatch_push_def Let_def split: option.splits json.splits if_splits)

lemma dispatch_response_result:
  "get_prop response ''id'' = Some (JNum i) \<Longrightarrow> map_of (requests s) i = Some req \<Longrightarrow>
   get_prop response ''result'' = Some v \<Longrightarrow>
   dispatch_response s response = (s\<lparr>timers := AList.delete (timeout req) (timers s), requests := AList.delete i (requests s)\<rparr>, [Resolve (promise req) v], False)"
  by (simp add: dispatch_response_def clearTimeout_def)

lemma dispatch_response_no_result:
  "get_prop response ''id'' = Some (JNum i) \<Longrightarrow> map_of (requests s) i = Some req \<Longrightarrow>
   get_prop response ''result'' = None \<Longrightarrow> \<not> truthy (get_prop response ''error'') \<Longrightarrow>
   dispatch_response s response = (s\<lparr>timers := AList.delete (timeout req) (timers s), requests := AList.delete i (requests s)\<rparr>, [Reject (promise req) (Error ''No result'')], False)"
  by (cases "get_prop response ''error''")
    (simp_all add: dispatch_response_def clearTimeout_def Let_def)

lemma dispatch_response_error:
  "get_prop response ''id'' = Some (JNum i) \<Longrightarrow> map_of (requests s) i = Some req \<Longrightarrow>
   get_prop response ''result'' = None \<Longrightarrow> get_prop response ''error'' = Some err \<Longrightarrow>
   truthy (Some err) \<Longrightarrow> errorMsg err = Some (JStr m) \<Longrightarrow>
   dispatch_response s response =
     (s\<lparr>timers := AList.delete (timeout req) (timers s), requests := AList.delete i (requests s)\<rparr>,
      [Reject (promise req) (case RPCError_new m of Inr e \<Rightarrow> RPCError e | Inl thrown \<Rightarrow> Error m)],
      False)"
  by (simp add: dispatch_response_def clearTimeout_def split: sum.splits)

text \<open>
  C3 (as the code has it). The claim says that a response with an \<^verbatim>\<open>error\<close> field is
  rejected with the classified or the raw error, and one with neither \<^verbatim>\<open>result\<close> nor
  \<^verbatim>\<open>error\<close> with "No result". The code tests \<^verbatim>\<open>response.error\<close> for truth, so an error
  field that is present and falsy (the empty string) counts as absent. The amended
  property, for a recognised response whose id is in the table and whose \<^verbatim>\<open>error\<close>, when
  present, has the declared type (a string, or an object whose \<^verbatim>\<open>message\<close> is a string):
  the entry's timer is cancelled and the entry removed; the promise is resolved with the
  \<^verbatim>\<open>result\<close> field when that is present; otherwise, when the error is a non-empty string
  or an object, it is rejected with the classified error of the error text, or with a
  generic error carrying that text when classification fails; otherwise, the error
  being absent or falsy, it is rejected with "No result".
\<close>

theorem response_settles_entry:
  assumes resp: "isRpcResponse response"
    and ident: "get_prop response ''id'' = Some (JNum i)"
    and entry: "map_of (requests s) i = Some req"
    and typed: "case get_prop response ''error'' of
                  None \<Rightarrow> True
                | Some (JStr e) \<Rightarrow> True
                | Some (JObj kvs) \<Rightarrow> is_string (map_of kvs ''message'')
                | Some other \<Rightarrow> False"
  shows "\<exists>s' eff. dispatch_response s response = (s', eff, False)
      \<and> map_of (timers s') (timeout req) = None
      \<and> map_of (requests s') i = None
      \<and> (\<forall>v. get_prop response ''result'' = Some v \<longrightarrow> eff = [Resolve (promise req) v])
      \<and> (get_prop response ''result'' = None \<longrightarrow>
           (\<forall>m. m \<noteq> [] \<and> get_prop response ''error'' = Some (JStr m)
                 \<or> (\<exists>kvs. get_prop response ''error'' = Some (JObj kvs)
                          \<and> map_of kvs ''message'' = Some (JStr m)) \<longrightarrow>
               eff = [Reject (promise req)
                       (case RPCError_new m of Inr e \<Rightarrow> RPCError e | Inl thrown \<Rightarrow> Error m)])
         \<and> (\<not> truthy (get_prop response ''error'') \<longrightarrow>
               eff = [Reject (promise req) (Error ''No result'')]))"
proof -
  let ?s2 = "s\<lparr>timers := AList.delete (timeout req) (timers s), requests := AList.delete i (requests s)\<rparr>"
  let ?classified = "\<lambda>m. Reject (promise req)
      (case RPCError_new m of Inr e \<Rightarrow> RPCError e | Inl thrown \<Rightarrow> Error m)"
  consider (result) v where "get_prop response ''result'' = Some v"
    | (none) "get_prop response ''result'' = None" "\<not> truthy (get_prop response ''error'')"
    | (str) m where "get_prop response ''result'' = None"
        "get_prop response ''error'' = Some (JStr m)" "m \<noteq> []"
    | (obj) kvs m where "get_prop response ''result'' = None"
        "get_prop response ''error'' = Some (JObj kvs)" "map_of kvs ''message'' = Some (JStr m)"
  proof (cases "get_prop response ''result''")
    case (Some v)
    then show ?thesis using result by blast
  next
    case None
    note nores = None
    show ?thesis
    proof (cases "get_prop response ''error''")
      case None
      then show ?thesis using none nores by simp
    next
      case (Some err)
      show ?thesis
      proof (cases err)
        case (JStr e)
        then show ?thesis using Some nores none [OF nores] str [OF nores, of e]
          by (cases "e = []") simp_all
      next
        case (JObj kvs)
        with typed Some obtain m where "map_of kvs ''message'' = Some (JStr m)"
          by (auto elim: is_string.elims)
        then show ?thesis using obj [OF nores] Some JObj by blast
      qed (use typed Some in simp_all)
    qed
  qed
  then show ?thesis
  proof cases
    case result
    have "dispatch_response s response = (?s2, [Resolve (promise req) v], False)"
      using dispatch_response_result [OF ident entry result] .
    then show ?thesis using result by (simp add: delete_conv)
  next
    case none
    have "dispatch_response s response
        = (?s2, [Reject (promise req) (Error ''No result'')], False)"
      using dispatch_response_no_result [OF ident entry none] .
    moreover have "\<not> (m \<noteq> [] \<and> get_prop response ''error'' = Some (JStr m)
                 \<or> (\<exists>kvs. get_prop response ''error'' = Some (JObj kvs)
                          \<and> map_of kvs ''message'' = Some (JStr m)))" for m
      using none(2) by auto
    ultimately show ?thesis using none by (simp add: delete_conv) blast
  next
    case str
    have "dispatch_response s response = (?s2, [?classified m], False)"
      using dispatch_response_error [OF ident entry str(1,2)] str(3) by simp
    then show ?thesis using str by (simp add: delete_conv)
  next
    case obj
    have "dispatch_response s response = (?s2, [?classified m], False)"
      using dispatch_response_error [OF ident entry obj(1,2)] obj(3) by simp
    then show ?thesis using obj by (simp add: delete_conv)
  qed
qed

text \<open>
  The amended property at the pending request 5 and the response with the result 42.
\<close>

theorem response_settles_entry_witness:
  "\<exists>s'. dispatch_response (snd pending5) answer5 = (s', [Resolve 0 (JNum 42)], False)
      \<and> map_of (timers s') 1 = None \<and> map_of (requests s') 5 = None"
proof -
  let ?req = "\<lparr>promise = 0, method = ''m'', timeout = 1\<rparr>"
  have 1: "isRpcResponse answer5" by (simp add: answer5_def isRpcResponse_def)
  have 2: "get_prop answer5 ''id'' = Some (JNum 5)" by (simp add: answer5_def)
  have 3: "map_of (requests (snd pending5)) 5 = Some ?req" by (simp add: pending5_session)
  have 4: "case get_prop answer5 ''error'' of
              None \<Rightarrow> True
            | Some (JStr e) \<Rightarrow> True
            | Some (JObj kvs) \<Rightarrow> is_string (map_of kvs ''message'')
            | Some other \<Rightarrow> False"
    by (simp add: answer5_def)
  have 5: "get_prop answer5 ''result'' = Some (JNum 42)" by (simp add: answer5_def)
  from response_settles_entry [OF 1 2 3 4] 5 show ?thesis by simp
qed

text \<open>
  The claim as stated fails on a response to the pending request 5 whose \<^verbatim>\<open>error\<close>
  field is present and is the empty string: the request is rejected with "No result",
  not with an error carrying the raw message.
\<close>

theorem empty_error_is_no_result:
  "get_prop empty_error5 ''error'' = Some (JStr [])
   \<and> get_prop empty_error5 ''result'' = None
   \<and> map fst (requests (snd pending5)) = [5]
   \<and> snd (deliveries parse_empty_error5 (snd pending5) [empty_error5_text @ [CHR 0x0A]])
       = [Fire MESSAGE (Some empty_error5), Reject 0 (Error ''No result'')]"
  by (simp add: pending5_session frame_eval parse_empty_error5_def empty_error5_def
      empty_error5_text_def)

section \<open>Properties of the request timeout\<close>

lemma dispatch_response_absent:
  "get_prop response ''id'' = Some (JNum i) \<Longrightarrow> map_of (requests s) i = None \<Longrightarrow>
   dispatch_response s response = (s, [], False)"
  by (simp add: dispatch_response_def)

lemma handle_line_unmatched:
  assumes parsed: "parseLine parse s line = (s1, Some response)"
    and ident: "get_prop response ''id'' = Some (JNum i)"
    and absent: "map_of (requests s) i = None"
  shows "\<exists>eff thrown. handle_line parse s line = (s1, Fire MESSAGE (Some response) # eff, thrown)
      \<and> (\<forall>q v. Resolve q v \<notin> set eff) \<and> (\<forall>q e. Reject q e \<notin> set eff)
      \<and> requests s1 = requests s"
proof -
  obtain b where s1: "s1 = s\<lparr>incompleteMessage := b\<rparr>"
    using parseLine_buffer_only [OF parsed] by blast
  then have "map_of (requests s1) i = None" using absent by simp
  then have d: "dispatch_response s1 response = (s1, [], False)"
    using ident by (rule dispatch_response_absent [rotated])
  show ?thesis
  proof (cases "dispatch_push s1 response")
    case None
    then show ?thesis using parsed d s1 by (auto simp: handle_line_def)
  next
    case (Some e2)
    then show ?thesis using parsed d s1 dispatch_push_no_settle [OF Some]
      by (auto simp: handle_line_def)
  qed
qed

lemma request_parked:
  assumes "\<not> connected s" and "request s m ps draws = Some (s1, eff, q, rest)"
  shows "eff = [] \<and> q = None \<and> requests s1 = requests s \<and> timers s1 = timers s"
  using assms by (auto simp: request_def Let_def split: option.splits)

text \<open>
  C5 (as the code has it). A request whose deadline timer is still scheduled (no
  response has cancelled it) when the timer fires: the request's promise is rejected
  with the timeout error and the table has no entry under its id any more. A message
  with that id that is recognised while the table has no entry under the id is
  published on the \<^verbatim>\<open>message\<close> channel and nothing else happens to any request: no
  promise is resolved or rejected and the table is as it was. The deadline starts when
  the entry is made: a call of \<^verbatim>\<open>request\<close> on a session that is not connected makes no
  entry, sets no timer and sends nothing until the session is connected.
\<close>

theorem timeout_rejects_then_late_response_dropped:
  assumes timer: "map_of (timers s) t = Some (RequestTimer i m p d)"
  shows "\<exists>s'. fire_timer h s t draws = Some (s', [Reject p (Error (timeout_message i m))], draws)
      \<and> map_of (requests s') i = None
      \<and> (\<forall>parse s1 line s2 response.
            map_of (requests s1) i = None
            \<and> parseLine parse s1 line = (s2, Some response)
            \<and> get_prop response ''id'' = Some (JNum i) \<longrightarrow>
            (\<exists>eff thrown.
               handle_line parse s1 line = (s2, Fire MESSAGE (Some response) # eff, thrown)
               \<and> (\<forall>q v. Resolve q v \<notin> set eff) \<and> (\<forall>q e. Reject q e \<notin> set eff)
               \<and> requests s2 = requests s1))
      \<and> (\<forall>s0 m0 ps0 draws0 s1 eff q rest.
            \<not> connected s0 \<and> request s0 m0 ps0 draws0 = Some (s1, eff, q, rest) \<longrightarrow>
            eff = [] \<and> q = None \<and> requests s1 = requests s0 \<and> timers s1 = timers s0)"
proof -
  let ?s' = "s\<lparr>timers := AList.delete t (timers s), requests := AList.delete i (requests s)\<rparr>"
  have fired: "fire_timer h s t draws = Some (?s', [Reject p (Error (timeout_message i m))], draws)"
    using timer by (simp add: fire_timer_def)
  have gone: "map_of (requests ?s') i = None" by (simp add: delete_conv)
  have late: "\<forall>parse s1 line s2 response.
            map_of (requests s1) i = None
            \<and> parseLine parse s1 line = (s2, Some response)
            \<and> get_prop response ''id'' = Some (JNum i) \<longrightarrow>
            (\<exists>eff thrown.
               handle_line parse s1 line = (s2, Fire MESSAGE (Some response) # eff, thrown)
               \<and> (\<forall>q v. Resolve q v \<notin> set eff) \<and> (\<forall>q e. Reject q e \<notin> set eff)
               \<and> requests s2 = requests s1)"
  proof (intro allI impI)
    fix parse s1 line s2 response
    assume "map_of (requests s1) i = None \<and> parseLine parse s1 line = (s2, Some response)
            \<and> get_prop response ''id'' = Some (JNum i)"
    then show "\<exists>eff thrown.
               handle_line parse s1 line = (s2, Fire MESSAGE (Some response) # eff, thrown)
               \<and> (\<forall>q v. Resolve q v \<notin> set eff) \<and> (\<forall>q e. Reject q e \<notin> set eff)
               \<and> requests s2 = requests s1"
      using handle_line_unmatched [of parse s1 line s2 response i] by blast
  qed
  have parked: "\<forall>s0 m0 ps0 draws0 s1 eff q rest.
            \<not> connected s0 \<and> request s0 m0 ps0 draws0 = Some (s1, eff, q, rest) \<longrightarrow>
            eff = [] \<and> q = None \<and> requests s1 = requests s0 \<and> timers s1 = timers s0"
  proof (intro allI impI)
    fix s0 m0 ps0 draws0 s1 eff q rest
    assume "\<not> connected s0 \<and> request s0 m0 ps0 draws0 = Some (s1, eff, q, rest)"
    then show "eff = [] \<and> q = None \<and> requests s1 = requests s0 \<and> timers s1 = timers s0"
      using request_parked [of s0 m0 ps0 draws0 s1 eff q rest] by blast
  qed
  from fired gone late parked show ?thesis
    by (intro exI [of _ ?s'] conjI)
qed

text \<open>
  The amended property at the pending request 5: its timer 1 fires, and the response
  with the result 42 comes late; and at \<^verbatim>\<open>request('m')\<close> on the new session, which is
  not connected.
\<close>

theorem timeout_rejects_then_late_response_dropped_witness:
  "(\<exists>s' eff thrown.
     fire_timer (fst pending5) (snd pending5) 1 []
       = Some (s', [Reject 0 (Error ''ElectrumWS request timeout. request ID: 5 (m)'')], [])
     \<and> map_of (requests s') 5 = None
     \<and> handle_line parse_answer5 s' (piece1 @ piece2 @ piece3)
         = (s'\<lparr>incompleteMessage := []\<rparr>, Fire MESSAGE (Some answer5) # eff, thrown)
     \<and> (\<forall>q v. Resolve q v \<notin> set eff) \<and> (\<forall>q e. Reject q e \<notin> set eff))
   \<and> (\<exists>s1. \<not> connected (snd fresh)
        \<and> request (snd fresh) ''m'' [] [5] = Some (s1, [], None, [])
        \<and> requests s1 = [] \<and> timers s1 = [])"
proof -
  have 1: "map_of (timers (snd pending5)) 1 = Some (RequestTimer 5 ''m'' 0 10000)"
    by (simp add: pending5_session)
  have 3: "timeout_message 5 ''m'' = ''ElectrumWS request timeout. request ID: 5 (m)''"
    by (simp add: timeout_message_def show_int_def show_nat.simps digit_char_def)
  have 4: "recognized (parse_answer5 (piece1 @ piece2 @ piece3))"
    by (simp add: frame_eval parse_answer5_def answer5_def)
  have 5: "parse_answer5 (piece1 @ piece2 @ piece3) = Some answer5"
    by (simp add: parse_answer5_def parse_table_def)
  have 6: "get_prop answer5 ''id'' = Some (JNum 5)" by (simp add: answer5_def)
  have 7: "\<not> connected (snd fresh)" "requests (snd fresh) = []" "timers (snd fresh) = []"
    by (simp_all add: construct_eval Let_def)
  obtain s1 eff1 q1 rest1 where 8: "request (snd fresh) ''m'' [] [5] = Some (s1, eff1, q1, rest1)"
    and 9: "rest1 = []"
    using 7 by (simp add: request_def Let_def)
  from timeout_rejects_then_late_response_dropped [OF 1, of "fst pending5" "[]"]
  obtain s' where fired: "fire_timer (fst pending5) (snd pending5) 1 []
        = Some (s', [Reject 0 (Error (timeout_message 5 ''m''))], [])"
    and gone: "map_of (requests s') 5 = None"
    and late: "\<forall>parse s1 line s2 response.
            map_of (requests s1) 5 = None
            \<and> parseLine parse s1 line = (s2, Some response)
            \<and> get_prop response ''id'' = Some (JNum 5) \<longrightarrow>
            (\<exists>eff thrown.
               handle_line parse s1 line = (s2, Fire MESSAGE (Some response) # eff, thrown)
               \<and> (\<forall>q v. Resolve q v \<notin> set eff) \<and> (\<forall>q e. Reject q e \<notin> set eff)
               \<and> requests s2 = requests s1)"
    and parked: "\<forall>s0 m0 ps0 draws0 s1 eff q rest.
            \<not> connected s0 \<and> request s0 m0 ps0 draws0 = Some (s1, eff, q, rest) \<longrightarrow>
            eff = [] \<and> q = None \<and> requests s1 = requests s0 \<and> timers s1 = timers s0"
    by blast
  have "parseLine parse_answer5 s' (piece1 @ piece2 @ piece3)
      = (s'\<lparr>incompleteMessage := []\<rparr>, Some answer5)"
    using parseLine_recognized [of parse_answer5 "piece1 @ piece2 @ piece3" s'] 4 5 by simp
  with late gone 6 have "\<exists>eff thrown.
       handle_line parse_answer5 s' (piece1 @ piece2 @ piece3)
         = (s'\<lparr>incompleteMessage := []\<rparr>, Fire MESSAGE (Some answer5) # eff, thrown)
       \<and> (\<forall>q v. Resolve q v \<notin> set eff) \<and> (\<forall>q e. Reject q e \<notin> set eff)
       \<and> requests (s'\<lparr>incompleteMessage := []\<rparr>) = requests s'"
    by blast
  with fired gone 3
  have A: "\<exists>s' eff thrown.
     fire_timer (fst pending5) (snd pending5) 1 []
       = Some (s', [Reject 0 (Error ''ElectrumWS request timeout. request ID: 5 (m)'')], [])
     \<and> map_of (requests s') 5 = None
     \<and> handle_line parse_answer5 s' (piece1 @ piece2 @ piece3)
         = (s'\<lparr>incompleteMessage := []\<rparr>, Fire MESSAGE (Some answer5) # eff, thrown)
     \<and> (\<forall>q v. Resolve q v \<notin> set eff) \<and> (\<forall>q e. Reject q e \<notin> set eff)"
    by auto
  from parked 7(1) 8
  have "eff1 = [] \<and> q1 = None \<and> requests s1 = requests (snd fresh) \<and> timers s1 = timers (snd fresh)"
    by blast
  with 7 8 9
  have B: "\<exists>s1. \<not> connected (snd fresh)
        \<and> request (snd fresh) ''m'' [] [5] = Some (s1, [], None, [])
        \<and> requests s1 = [] \<and> timers s1 = []"
    by auto
  from A B show ?thesis by (rule conjI)
qed

text \<open>
  The claim as stated fails in two ways. \<^verbatim>\<open>request('m')\<close> on the new session, before
  the socket has opened: no entry is made and no timer is set, and when the socket
  closes without having opened nothing is scheduled at all, so the request is never
  rejected.
  And on the session with the request 5 pending: its timer fires, \<^verbatim>\<open>request('n')\<close> then
  draws the id 5, and the late response to the first request resolves the second.
\<close>

theorem no_deadline_before_connection_and_reused_id:
  "(case run parse_answer5 fresh [CallRequest ''m'' [] [5], SocketClose None] of
      None \<Rightarrow> False
    | Some (h, s, eff) \<Rightarrow>
        eff = [Fire CLOSE None] \<and> requests s = [] \<and> timers s = []
        \<and> once_connected s = [AwaitRequest 5 ''m'' (make_payload ''m'' [] 5)]
        \<and> state (ws s) = CLOSED)
   \<and> map_option (\<lambda>(h, s, eff). eff)
        (run parse_answer5 pending5
           [TimerFires 1 [], CallRequest ''n'' [] [5], SocketMessage (piece1 @ piece2 @ piece3)])
      = Some [Reject 0 (Error ''ElectrumWS request timeout. request ID: 5 (m)''),
              Send (make_payload ''n'' [] 5),
              Fire MESSAGE (Some answer5),
              Resolve 1 (JNum 42)]"
proof
  show "case run parse_answer5 fresh [CallRequest ''m'' [] [5], SocketClose None] of
      None \<Rightarrow> False
    | Some (h, s, eff) \<Rightarrow>
        eff = [Fire CLOSE None] \<and> requests s = [] \<and> timers s = []
        \<and> once_connected s = [AwaitRequest 5 ''m'' (make_payload ''m'' [] 5)]
        \<and> state (ws s) = CLOSED"
    by (simp add: construct_eval step_eval)
  have "timeout_message 5 ''m'' = ''ElectrumWS request timeout. request ID: 5 (m)''"
    by (simp add: timeout_message_def show_int_def show_nat.simps digit_char_def)
  then show "map_option (\<lambda>(h, s, eff). eff)
        (run parse_answer5 pending5
           [TimerFires 1 [], CallRequest ''n'' [] [5], SocketMessage (piece1 @ piece2 @ piece3)])
      = Some [Reject 0 (Error ''ElectrumWS request timeout. request ID: 5 (m)''),
              Send (make_payload ''n'' [] 5),
              Fire MESSAGE (Some answer5),
              Resolve 1 (JNum 42)]"
    by (simp add: pending5_session step_eval frame_eval parse_answer5_def piece1_def piece2_def
        piece3_def answer5_def)
qed

section \<open>Rejecting the pending requests\<close>





section \<open>The invariant of the reachable sessions\<close>




lemma map_of_snoc:
  "map_of (al @ [(k, v)]) t = Some a \<Longrightarrow> map_of al t = Some a \<or> (t = k \<and> a = v)"
  by (induction al) (auto split: if_splits)

lemma map_of_delete_Some:
  "map_of (AList.delete k al) t = Some a \<Longrightarrow> map_of al t = Some a"
  by (simp add: delete_conv split: if_splits)
















































section \<open>Properties of close\<close>




section \<open>Request ids\<close>

text \<open>
  What the probing loop does achieve: the id it returns is not in the table, and a call
  of \<^verbatim>\<open>request\<close> on a connected session makes its entry under an unused id.
\<close>

lemma random_id_unused:
  "random_id table draws = Some (i, rest) \<Longrightarrow> map_of table i = None"
  by (induction draws) (auto split: if_splits)

lemma update_absent: "map_of al k = None \<Longrightarrow> AList.update k v al = al @ [(k, v)]"
  by (induction al) (auto split: if_splits)

lemma request_id_unused:
  assumes "connected s" and "request s m ps draws = Some (s', eff, Some p, rest)"
  shows "\<exists>i. map_of (requests s) i = None \<and> eff = [Send (make_payload m ps i)]
     \<and> requests s' = requests s @ [(i, \<lparr>promise = p, method = m, timeout = next_timer s\<rparr>)]"
proof -
  from assms obtain i where r: "random_id (requests s) draws = Some (i, rest)"
    by (auto simp: request_def request_send_def Let_def split: option.splits prod.splits)
  then have unused: "map_of (requests s) i = None" by (rule random_id_unused)
  show ?thesis
    using assms r unused
    by (auto simp: request_def request_send_def createRequestPromise_def setTimeout_def
        Let_def update_absent)
qed

text \<open>
  C1 (the code departs from the claim). The claim: every id of the block that
  \<^verbatim>\<open>batchRequest\<close> allocates, and every id \<^verbatim>\<open>request\<close> allocates, is unused by the table
  when its entry is created, and an entry that leaves the table has its timer cancelled.
  \<^verbatim>\<open>batchRequest\<close> probes the first id of its block only: with the request \<^verbatim>\<open>a\<close> pending
  under the id 6 and the draw 5, a batch of two takes the ids 5 and 6, the entry of \<^verbatim>\<open>a\<close>
  is replaced by the entry of the second request of the batch, and the timer 1 of \<^verbatim>\<open>a\<close>
  stays scheduled. \<^verbatim>\<open>request\<close> probes before it waits for the connection and makes its
  entry after: two calls on a session that is not yet connected may both draw 5, and
  on connection the second entry replaces the first, both frames going out with the
  id 5.
\<close>

theorem batch_block_reuses_pending_id:
  "requests (snd pending6) = [(6, \<lparr>promise = 0, method = ''a'', timeout = 1\<rparr>)]
   \<and> (\<exists>s'. batchRequest (snd pending6) [(''b'', []), (''c'', [])] [5]
              = Some (s', [Send (make_payload ''b'' [] 5), Send (make_payload ''c'' [] 6)], [1, 2], [])
        \<and> requests s' = [(6, \<lparr>promise = 2, method = ''c'', timeout = 3\<rparr>),
                          (5, \<lparr>promise = 1, method = ''b'', timeout = 2\<rparr>)]
        \<and> map_of (timers s') 1 = Some (RequestTimer 6 ''a'' 0 10000))
   \<and> map_option (\<lambda>(h, s, eff). (requests s, timers s, eff))
         (run parse_answer5 fresh
            [CallRequest ''a'' [] [5], CallRequest ''b'' [] [5], SocketOpen, TimerFires 0 []])
       = Some ([(5, \<lparr>promise = 1, method = ''b'', timeout = 2\<rparr>)],
               [(1, RequestTimer 5 ''a'' 0 10000), (2, RequestTimer 5 ''b'' 1 10000)],
               [Fire OPEN None, Fire CONNECTED None,
                Send (make_payload ''a'' [] 5), Send (make_payload ''b'' [] 5)])"
  by (simp add: pending6_session construct_eval step_eval)

section \<open>Routing of push messages\<close>

text \<open>
  The scenario of the specification: the subscriptions to a script hash and to the
  headers have different keys, and the push for the script hash calls the first
  callback only, with the parameters of the push.
\<close>

lemma scripthash_push_routed:
  "map fst (subscriptions (snd two_subscriptions))
     = [''blockchain.scripthash-abc123'', ''blockchain.headers'']
   \<and> dispatch_push (snd two_subscriptions) push_scripthash
       = Some [Callback 1 [JStr ''abc123'', JStr ''status'']]"
  by (simp add: two_subscriptions_session push_scripthash_def dispatch_push_def endsWith_def)

text \<open>
  When the method of a push contains \<^verbatim>\<open>.subscribe\<close> only as its suffix, removing the
  first occurrence strips the suffix, and the push is routed by the key of what is left
  and of its first parameter.
\<close>

lemma startsWith_before_dot:
  "CHR ''.'' \<notin> set q \<Longrightarrow> startsWith (cs @ CHR ''.'' # r) q \<Longrightarrow> startsWith cs q"
proof (induction q arbitrary: cs)
  case Nil
  then show ?case by simp
next
  case (Cons x q)
  then show ?case by (cases cs) auto
qed

lemma remove_first_suffix:
  "\<not> str_includes base ''.subscribe'' \<Longrightarrow>
   remove_first (base @ ''.subscribe'') ''.subscribe'' = base"
proof (induction base)
  case Nil
  then show ?case by simp
next
  case (Cons c cs)
  have "\<not> startsWith ((c # cs) @ ''.subscribe'') ''.subscribe''"
  proof
    assume "startsWith ((c # cs) @ ''.subscribe'') ''.subscribe''"
    then have c: "c = CHR ''.''" and "startsWith (cs @ CHR ''.'' # ''subscribe'') ''subscribe''"
      by simp_all
    then have "startsWith cs ''subscribe''"
      by (intro startsWith_before_dot [of "''subscribe''" cs "''subscribe''"]) simp_all
    with c Cons.prems show False by simp
  qed
  moreover have "\<not> str_includes cs ''.subscribe''" using Cons.prems by simp
  ultimately have "remove_first ((c # cs) @ ''.subscribe'') ''.subscribe''
      = c # remove_first (cs @ ''.subscribe'') ''.subscribe''"
    and "remove_first (cs @ ''.subscribe'') ''.subscribe'' = cs"
    using Cons.IH by (simp_all del: startsWith.simps)
  then show ?case by simp
qed

lemma endsWith_suffix: "endsWith (base @ ''.subscribe'') ''subscribe''"
  by (simp add: endsWith_def)

lemma push_routed_by_key:
  assumes m: "get_prop response ''method'' = Some (JStr (base @ ''.subscribe''))"
    and once: "\<not> str_includes base ''.subscribe''"
    and ps: "get_prop response ''params'' = Some (JArr ps)"
  shows "dispatch_push s response =
           Some (case map_of (subscriptions s) (subscriptionKey base (first_arg ps)) of
                   None \<Rightarrow> []
                 | Some cb \<Rightarrow> [Callback cb ps])"
  using m ps remove_first_suffix [OF once] endsWith_suffix [of base]
  by (simp add: dispatch_push_def split: option.splits)

text \<open>
  C4 (the code departs from the claim). The claim: the key of a push is made of its
  method with the suffix \<^verbatim>\<open>.subscribe\<close> stripped. The code removes the first occurrence
  of \<^verbatim>\<open>.subscribe\<close>, wherever it is. After \<^verbatim>\<open>subscribe('a.subscribe.b', cb)\<close>, which
  registers the key \<^verbatim>\<open>a.subscribe.b\<close> and sends the method \<^verbatim>\<open>a.subscribe.b.subscribe\<close>, the
  push of that method is given the key \<^verbatim>\<open>a.b.subscribe\<close>, finds no subscription, and the
  callback is not called.
\<close>

theorem repeated_suffix_push_not_routed:
  "subscriptions (snd subscribed_twice) = [(''a.subscribe.b'', 7)]
   \<and> map (\<lambda>entry. method (snd entry)) (requests (snd subscribed_twice))
       = [''a.subscribe.b'' @ ''.subscribe'']
   \<and> isRpcRequest push_twice
   \<and> get_prop push_twice ''method'' = Some (JStr (''a.subscribe.b'' @ ''.subscribe''))
   \<and> remove_first (''a.subscribe.b'' @ ''.subscribe'') ''.subscribe'' = ''a.b.subscribe''
   \<and> dispatch_push (snd subscribed_twice) push_twice = Some []"
  by (simp add: subscribed_twice_session push_twice_def dispatch_push_def endsWith_def
      isRpcRequest_def)

section \<open>Sessions and their options\<close>

text \<open>
  C9 (the code departs from the claim). The claim: two sessions share no mutable
  structure. The constructor passes \<^verbatim>\<open>ElectrumWS.DEFAULT_OPTIONS\<close> itself as the target of
  \<^verbatim>\<open>Object.assign\<close> and keeps the result: the options of every session are that one
  object. A first session is made with no options and may reconnect; making a second
  one with \<^verbatim>\<open>{ reconnect: false }\<close> turns reconnection off in the first, and in a third
  one made afterwards with no options. \<^verbatim>\<open>close\<close> on one session turns reconnection off
  in another.
\<close>

theorem sessions_share_options:
  "(case ElectrumWS_new initial_store ''ws://a'' no_options of
      (h1, a, e1) \<Rightarrow>
        (case ElectrumWS_new h1 ''ws://b'' no_reconnect of
           (h2, b, e2) \<Rightarrow>
             (case ElectrumWS_new h2 ''ws://c'' no_options of
                (h3, c, e3) \<Rightarrow>
                  reconnect (h1 (options a)) \<and> options a = options b
                  \<and> \<not> reconnect (h2 (options a)) \<and> \<not> reconnect (h3 (options c)))))
   \<and> (case ElectrumWS_new initial_store ''ws://a'' no_options of
        (h1, a, e1) \<Rightarrow>
          (case ElectrumWS_new h1 ''ws://b'' no_options of
             (h2, b, e2) \<Rightarrow>
               (case close h2 b ''bye'' of
                  (h3, b', eff, res) \<Rightarrow>
                    reconnect (h2 (options a)) \<and> \<not> reconnect (h3 (options a)))))"
  by (simp add: ElectrumWS_new_def Object_assign_def DEFAULT_OPTIONS_def no_options_def
      no_reconnect_def connect_def initial_store_def close_def clearTimeout_def Let_def)

section \<open>Properties of the replay of subscriptions\<close>











lemma subscribe_deferred:
  "\<not> connected s \<Longrightarrow>
   subscribe s again m cb ps draws
     = Some (s\<lparr>subscriptions := AList.update (subscriptionKey m (first_arg ps)) cb (subscriptions s)\<rparr>,
             [], draws)"
  by (simp add: subscribe_def)








end
